theory Spec2Isabelle
  imports Main "HOL-Library.Multiset"
begin

section \<open>Data model\<close>

text \<open>
  A JavaScript string is kept as the list of its UTF-16 code units. The field names
  and the messages that the program itself writes are Isabelle strings; \<open>ascii\<close>
  gives the JavaScript string of an ASCII text.
\<close>

type_synonym jstring = "nat list"

definition ascii :: "string \<Rightarrow> jstring" where
  "ascii s = map of_char s"

text \<open>
  An ObjectId is kept as the text that \<^verbatim>\<open>toString()\<close> gives for it (24 hexadecimal
  digits, the letters in lower case), so that the comparison
  \<^verbatim>\<open>post.authorId.toString() !== req.user._id.toString()\<close> of the ownership guard is
  the comparison of two values of this type.
\<close>

type_synonym oid = jstring

text \<open>A stored user (model \<^verbatim>\<open>User\<close>); \<open>user_password\<close> is the stored hash.\<close>

record user =
  user_id :: oid
  user_name :: jstring
  user_email :: jstring
  user_password :: jstring

text \<open>
  A stored post, after \<^verbatim>\<open>postSchema\<close>: title, content, authorId, and the two
  fields that \<^verbatim>\<open>timestamps: true\<close> adds (milliseconds as natural numbers).
\<close>

record post =
  post_id :: oid
  title :: jstring
  content :: jstring
  authorId :: oid
  createdAt :: nat
  updatedAt :: nat

text \<open>
  A post as a query answers it after \<^verbatim>\<open>populate('authorId', 'name email')\<close>: the
  author reference is replaced by the selected fields of the referenced user, or by
  null (\<open>None\<close>) when no user has that id.
\<close>

record post_doc =
  doc_id :: oid
  doc_title :: jstring
  doc_content :: jstring
  doc_author :: "(string \<times> jstring) list option"
  doc_createdAt :: nat
  doc_updatedAt :: nat

text \<open>
  Errors as values. \<open>Error m\<close> is \<^verbatim>\<open>new Error(m)\<close> thrown by a service;
  \<open>ValidationError ms\<close> is the rejection of a write whose fields fail the schema, with
  the schema's messages of the failing paths (as a set: the order in which the
  library lists them is left open); \<open>CastError v\<close> is the rejection of a query whose
  id \<open>v\<close> does not cast to an ObjectId.
\<close>

datatype error = Error string | ValidationError "string set" | CastError jstring

text \<open>
  \<^verbatim>\<open>error.message\<close>: the text an \<open>Error\<close> was built with; the text that the store's
  library composes for its own errors is kept as the error it is composed from.
\<close>

datatype message = Text string | Composed error

fun message_of :: "error \<Rightarrow> message" where
  "message_of (Error m) = Text m"
| "message_of e = Composed e"

text \<open>
  The queries that the code sends through the \<^verbatim>\<open>Post\<close> and \<^verbatim>\<open>User\<close> models, in
  the order they are made. The lookup of the author that \<^verbatim>\<open>populate\<close> adds to a
  query is part of that query.
\<close>

datatype store_call =
    FindById jstring
  | Find
  | Create
  | FindByIdAndUpdate jstring
  | FindByIdAndDelete jstring
  | UserFindOne jstring
  | UserCreate

record db =
  users :: "user list"
  posts :: "post list"
  calls :: "store_call list"

text \<open>
  What the sources use and do not define: the password hash of the User model with its
  comparison, the validation of the User schema, the token issuer \<^verbatim>\<open>generateToken\<close>
  of \<^verbatim>\<open>utils/jwt\<close>, and what the driver makes of an id of 12 characters (older
  versions read its bytes as an ObjectId, newer ones reject it). They are parameters
  of the model.
\<close>

record deps =
  cast12 :: "jstring \<Rightarrow> oid option"
  hashPassword :: "jstring \<Rightarrow> jstring"
  comparePassword :: "jstring \<Rightarrow> jstring \<Rightarrow> bool"
  userSchemaErrors :: "jstring \<Rightarrow> jstring \<Rightarrow> jstring \<Rightarrow> string set"
  generateToken :: "oid \<Rightarrow> jstring"

text \<open>
  The cast of a path parameter to an ObjectId, which every query by id makes first:
  a text of 24 hexadecimal digits, in either case, is the ObjectId with these digits;
  any other text, but for one of 12 characters, is no ObjectId and the query is
  rejected.
\<close>

definition isHexDigit :: "nat \<Rightarrow> bool" where
  "isHexDigit c \<longleftrightarrow> (48 \<le> c \<and> c \<le> 57) \<or> (65 \<le> c \<and> c \<le> 70) \<or> (97 \<le> c \<and> c \<le> 102)"

definition toLowerCase :: "nat \<Rightarrow> nat" where
  "toLowerCase c = (if 65 \<le> c \<and> c \<le> 90 then c + 32 else c)"

definition castObjectId :: "deps \<Rightarrow> jstring \<Rightarrow> oid option" where
  "castObjectId d s =
     (if length s = 24
      then (if list_all isHexDigit s then Some (map toLowerCase s) else None)
      else if length s = 12 then cast12 d s
      else None)"

section \<open>The Post schema\<close>

text \<open>
  \<^verbatim>\<open>String.prototype.trim\<close> removes the white space and the line terminators of
  ECMAScript from both ends: tab, line feed, vertical tab, form feed, carriage return,
  space, U+00A0, U+1680, U+2000 to U+200A, U+2028, U+2029, U+202F, U+205F, U+3000
  and U+FEFF.
\<close>

definition isWhitespace :: "nat \<Rightarrow> bool" where
  "isWhitespace c \<longleftrightarrow>
     c \<in> {9, 10, 11, 12, 13, 32, 160, 5760, 8232, 8233, 8239, 8287, 12288, 65279}
     \<or> (8192 \<le> c \<and> c \<le> 8202)"

definition trim :: "jstring \<Rightarrow> jstring" where
  "trim s = rev (dropWhile isWhitespace (rev (dropWhile isWhitespace s)))"

text \<open>
  The schema's setters and validators on a write of title and content:
  \<^verbatim>\<open>title: { required: [true, 'Please provide a title'], trim: true }\<close> and
  \<^verbatim>\<open>content: { required: [true, 'Please provide content'] }\<close>. The title is trimmed
  first; \<^verbatim>\<open>required\<close> fails on the empty string. The answer is the set of messages
  of the failing paths, or the fields as they are stored.
\<close>

definition postSchema :: "jstring \<Rightarrow> jstring \<Rightarrow> string set + jstring \<times> jstring" where
  "postSchema t c =
     (let t' = trim t;
          errs = (if t' = [] then {''Please provide a title''} else {}) \<union>
                 (if c = [] then {''Please provide content''} else {})
      in if errs = {} then Inr (t', c) else Inl errs)"

section \<open>The store\<close>

definition logged :: "store_call \<Rightarrow> db \<Rightarrow> db" where
  "logged k st = st\<lparr>calls := calls st @ [k]\<rparr>"

text \<open>
  \<^verbatim>\<open>Post.findById(id)\<close>: the id is cast, and the answer is the post with the ObjectId
  it casts to, or null.
\<close>

definition Post_findById :: "deps \<Rightarrow> jstring \<Rightarrow> db \<Rightarrow> (error + post option) \<times> db" where
  "Post_findById d s st =
     (case castObjectId d s of
        None \<Rightarrow> (Inl (CastError s), logged (FindById s) st)
      | Some i \<Rightarrow> (Inr (find (\<lambda>p. post_id p = i) (posts st)), logged (FindById s) st))"

text \<open>
  \<^verbatim>\<open>.sort({ createdAt: -1 })\<close>: by creation time, newest first. The creation time
  is the only sort key; posts of equal creation time stay in the order of the
  collection.
\<close>

definition sort_createdAt_desc :: "post list \<Rightarrow> post list" where
  "sort_createdAt_desc ps = sort_key (\<lambda>p. - int (createdAt p)) ps"

definition Post_find_sorted :: "db \<Rightarrow> post list \<times> db" where
  "Post_find_sorted st = (sort_createdAt_desc (posts st), logged Find st)"

text \<open>
  \<^verbatim>\<open>Post.create({ title, content, authorId })\<close>: the schema runs, then the document is
  stored under the new id \<open>i\<close> with both timestamps at the time \<open>now\<close> of the call.
\<close>

definition Post_create ::
  "oid \<Rightarrow> nat \<Rightarrow> jstring \<Rightarrow> jstring \<Rightarrow> oid \<Rightarrow> db \<Rightarrow> (error + post) \<times> db" where
  "Post_create i now t c a st =
     (case postSchema t c of
        Inl errs \<Rightarrow> (Inl (ValidationError errs), logged Create st)
      | Inr (t', c') \<Rightarrow>
          (let p = \<lparr>post_id = i, title = t', content = c', authorId = a,
                    createdAt = now, updatedAt = now\<rparr>
           in (Inr p, logged Create (st\<lparr>posts := posts st @ [p]\<rparr>))))"

text \<open>Replace the first post with id \<open>i\<close> by its image under \<open>f\<close>.\<close>

fun update_first :: "oid \<Rightarrow> (post \<Rightarrow> post) \<Rightarrow> post list \<Rightarrow> post list" where
  "update_first i f [] = []"
| "update_first i f (p # ps) =
     (if post_id p = i then f p # ps else p # update_first i f ps)"

fun delete_first :: "oid \<Rightarrow> post list \<Rightarrow> post list" where
  "delete_first i [] = []"
| "delete_first i (p # ps) = (if post_id p = i then ps else p # delete_first i ps)"

text \<open>
  \<^verbatim>\<open>Post.findByIdAndUpdate(postId, { title, content }, { new: true, runValidators: true })\<close>:
  the id is cast, the update runs through the schema, and the matching document, if
  there is one, gets the two fields and a new \<open>updatedAt\<close>; the answer is the document
  after the update (\<^verbatim>\<open>new: true\<close>) or null.
\<close>

definition Post_findByIdAndUpdate ::
  "deps \<Rightarrow> nat \<Rightarrow> jstring \<Rightarrow> jstring \<Rightarrow> jstring \<Rightarrow> db \<Rightarrow> (error + post option) \<times> db" where
  "Post_findByIdAndUpdate d now s t c st =
     (case castObjectId d s of
        None \<Rightarrow> (Inl (CastError s), logged (FindByIdAndUpdate s) st)
      | Some i \<Rightarrow>
          (case postSchema t c of
             Inl errs \<Rightarrow> (Inl (ValidationError errs), logged (FindByIdAndUpdate s) st)
           | Inr (t', c') \<Rightarrow>
               (let f = (\<lambda>p. p\<lparr>title := t', content := c', updatedAt := now\<rparr>)
                in (Inr (map_option f (find (\<lambda>p. post_id p = i) (posts st))),
                    logged (FindByIdAndUpdate s)
                      (st\<lparr>posts := update_first i f (posts st)\<rparr>)))))"

text \<open>
  \<^verbatim>\<open>Post.findByIdAndDelete(postId)\<close>: the id is cast, the matching document, if there
  is one, is removed, and the answer is that document or null.
\<close>

definition Post_findByIdAndDelete :: "deps \<Rightarrow> jstring \<Rightarrow> db \<Rightarrow> (error + post option) \<times> db" where
  "Post_findByIdAndDelete d s st =
     (case castObjectId d s of
        None \<Rightarrow> (Inl (CastError s), logged (FindByIdAndDelete s) st)
      | Some i \<Rightarrow>
          (Inr (find (\<lambda>p. post_id p = i) (posts st)),
           logged (FindByIdAndDelete s) (st\<lparr>posts := delete_first i (posts st)\<rparr>)))"

text \<open>
  The fields of a user document by name, and the projection that \<^verbatim>\<open>populate\<close> makes
  of it: \<^verbatim>\<open>_id\<close> and the selected fields.
\<close>

definition user_field :: "user \<Rightarrow> string \<Rightarrow> jstring option" where
  "user_field u f =
     (if f = ''_id'' then Some (user_id u)
      else if f = ''name'' then Some (user_name u)
      else if f = ''email'' then Some (user_email u)
      else if f = ''password'' then Some (user_password u)
      else None)"

definition select_fields :: "string list \<Rightarrow> user \<Rightarrow> (string \<times> jstring) list" where
  "select_fields fs u =
     (''_id'', user_id u) #
     concat (map (\<lambda>f. case user_field u f of None \<Rightarrow> [] | Some v \<Rightarrow> [(f, v)]) fs)"

definition populate :: "string list \<Rightarrow> db \<Rightarrow> post \<Rightarrow> post_doc" where
  "populate fs st p =
     \<lparr>doc_id = post_id p, doc_title = title p, doc_content = content p,
      doc_author = map_option (select_fields fs) (find (\<lambda>u. user_id u = authorId p) (users st)),
      doc_createdAt = createdAt p, doc_updatedAt = updatedAt p\<rparr>"

section \<open>services/postService.js\<close>

definition getAllPosts :: "db \<Rightarrow> post_doc list \<times> db" where
  "getAllPosts st =
     (case Post_find_sorted st of
        (ps, st') \<Rightarrow> (map (populate [''name'', ''email''] st') ps, st'))"

definition getPostById :: "deps \<Rightarrow> jstring \<Rightarrow> db \<Rightarrow> (error + post_doc) \<times> db" where
  "getPostById d postId st =
     (case Post_findById d postId st of
        (Inl e, st') \<Rightarrow> (Inl e, st')
      | (Inr None, st') \<Rightarrow> (Inl (Error ''Post not found''), st')
      | (Inr (Some p), st') \<Rightarrow> (Inr (populate [''name'', ''email''] st' p), st'))"

definition createPost ::
  "oid \<Rightarrow> nat \<Rightarrow> jstring \<Rightarrow> jstring \<Rightarrow> oid \<Rightarrow> db \<Rightarrow> (error + post_doc) \<times> db" where
  "createPost i now t c a st =
     (case Post_create i now t c a st of
        (Inl e, st') \<Rightarrow> (Inl e, st')
      | (Inr p, st') \<Rightarrow> (Inr (populate [''name'', ''email''] st' p), st'))"

definition updatePost ::
  "deps \<Rightarrow> nat \<Rightarrow> jstring \<Rightarrow> jstring \<Rightarrow> jstring \<Rightarrow> db \<Rightarrow> (error + post_doc) \<times> db" where
  "updatePost d now postId t c st =
     (case Post_findByIdAndUpdate d now postId t c st of
        (Inl e, st') \<Rightarrow> (Inl e, st')
      | (Inr None, st') \<Rightarrow> (Inl (Error ''Post not found''), st')
      | (Inr (Some p), st') \<Rightarrow> (Inr (populate [''name'', ''email''] st' p), st'))"

definition deletePost :: "deps \<Rightarrow> jstring \<Rightarrow> db \<Rightarrow> (error + post) \<times> db" where
  "deletePost d postId st =
     (case Post_findByIdAndDelete d postId st of
        (Inl e, st') \<Rightarrow> (Inl e, st')
      | (Inr None, st') \<Rightarrow> (Inl (Error ''Post not found''), st')
      | (Inr (Some p), st') \<Rightarrow> (Inr p, st'))"

section \<open>Requests and responses\<close>

text \<open>
  A request as the handlers read it: the path parameter \<^verbatim>\<open>req.params.id\<close>, the
  fields of the JSON body by name, the user that the authentication middleware
  (\<^verbatim>\<open>middleware/auth.js\<close>, not among the sources) attached as \<^verbatim>\<open>req.user\<close>, and
  \<^verbatim>\<open>req.post\<close>, which the ownership guard sets. The body is the parsed object, as
  the list of its fields: \<open>map_of\<close> reads a field, and a field that the body does not
  have reads as \<open>None\<close>. The values of the fields are strings; a body with a title or
  a content that is no string (a number, an array, an object) is outside the model.
\<close>

record request =
  params_id :: jstring
  body :: "(string \<times> jstring) list"
  req_user :: user
  req_post :: "post option"

datatype payload =
    NoData
  | PostData post_doc
  | PostList nat "post_doc list"

record response =
  status :: nat
  success :: bool
  message :: "message option"
  data :: payload

definition failure :: "nat \<Rightarrow> message \<Rightarrow> response" where
  "failure code m = \<lparr>status = code, success = False, message = Some m, data = NoData\<rparr>"

text \<open>\<^verbatim>\<open>!x\<close> for a body field: the field is absent, or it is the empty string.\<close>

definition falsy :: "jstring option \<Rightarrow> bool" where
  "falsy x \<longleftrightarrow> (case x of None \<Rightarrow> True | Some s \<Rightarrow> s = [])"

section \<open>middleware/authorize.js\<close>

text \<open>The gate answers the request itself, or passes it on with \<^verbatim>\<open>req.post\<close> set.\<close>

datatype gate = Respond response | Next request

definition authorize :: "deps \<Rightarrow> request \<Rightarrow> db \<Rightarrow> gate \<times> db" where
  "authorize d req st =
     (case Post_findById d (params_id req) st of
        (Inl e, st') \<Rightarrow> (Respond (failure 500 (Text ''Error checking authorization'')), st')
      | (Inr None, st') \<Rightarrow> (Respond (failure 404 (Text ''Post not found'')), st')
      | (Inr (Some p), st') \<Rightarrow>
          (if authorId p \<noteq> user_id (req_user req)
           then (Respond (failure 403 (Text ''Not authorized to perform this action'')), st')
           else (Next (req\<lparr>req_post := Some p\<rparr>), st')))"

section \<open>controllers/postController.js\<close>

text \<open>
  Each handler is a \<^verbatim>\<open>try\<close> around the call of its service, with a \<^verbatim>\<open>catch\<close>
  that answers with the message of the error: what the service raises is the \<open>Inl\<close>
  case. The service of the list raises nothing here, so the list has no such case.
  The new id and the time of the call are arguments of the handlers that create or
  update a post.
\<close>

definition getAllPosts_controller :: "request \<Rightarrow> db \<Rightarrow> response \<times> db" where
  "getAllPosts_controller req st =
     (case getAllPosts st of
        (ps, st') \<Rightarrow>
          (\<lparr>status = 200, success = True, message = None, data = PostList (length ps) ps\<rparr>, st'))"

definition getPostById_controller :: "deps \<Rightarrow> request \<Rightarrow> db \<Rightarrow> response \<times> db" where
  "getPostById_controller d req st =
     (case getPostById d (params_id req) st of
        (Inr p, st') \<Rightarrow>
          (\<lparr>status = 200, success = True, message = None, data = PostData p\<rparr>, st')
      | (Inl e, st') \<Rightarrow> (failure 404 (message_of e), st'))"

definition createPost_controller :: "oid \<Rightarrow> nat \<Rightarrow> request \<Rightarrow> db \<Rightarrow> response \<times> db" where
  "createPost_controller i now req st =
     (let t = map_of (body req) ''title''; c = map_of (body req) ''content''
      in if falsy t \<or> falsy c
         then (failure 400 (Text ''Please provide title and content''), st)
         else case createPost i now (the t) (the c) (user_id (req_user req)) st of
                (Inr p, st') \<Rightarrow>
                  (\<lparr>status = 201, success = True,
                    message = Some (Text ''Post created successfully''), data = PostData p\<rparr>, st')
              | (Inl e, st') \<Rightarrow> (failure 400 (message_of e), st'))"

definition updatePost_controller :: "deps \<Rightarrow> nat \<Rightarrow> request \<Rightarrow> db \<Rightarrow> response \<times> db" where
  "updatePost_controller d now req st =
     (let t = map_of (body req) ''title''; c = map_of (body req) ''content''
      in if falsy t \<or> falsy c
         then (failure 400 (Text ''Please provide title and content''), st)
         else case updatePost d now (params_id req) (the t) (the c) st of
                (Inr p, st') \<Rightarrow>
                  (\<lparr>status = 200, success = True,
                    message = Some (Text ''Post updated successfully''), data = PostData p\<rparr>, st')
              | (Inl e, st') \<Rightarrow> (failure 404 (message_of e), st'))"

definition deletePost_controller :: "deps \<Rightarrow> request \<Rightarrow> db \<Rightarrow> response \<times> db" where
  "deletePost_controller d req st =
     (case deletePost d (params_id req) st of
        (Inr p, st') \<Rightarrow>
          (\<lparr>status = 200, success = True,
            message = Some (Text ''Post deleted successfully''), data = NoData\<rparr>, st')
      | (Inl e, st') \<Rightarrow> (failure 404 (message_of e), st'))"

section \<open>routes/postRoutes.js\<close>

text \<open>
  \<^verbatim>\<open>router.put('/:id', authenticate, authorize, postController.updatePost)\<close> and
  \<^verbatim>\<open>router.delete('/:id', authenticate, authorize, postController.deletePost)\<close>, on a
  request that the authentication middleware has passed on with \<^verbatim>\<open>req.user\<close> set.
\<close>

definition route_put :: "deps \<Rightarrow> nat \<Rightarrow> request \<Rightarrow> db \<Rightarrow> response \<times> db" where
  "route_put d now req st =
     (case authorize d req st of
        (Respond r, st') \<Rightarrow> (r, st')
      | (Next req', st') \<Rightarrow> updatePost_controller d now req' st')"

definition route_delete :: "deps \<Rightarrow> request \<Rightarrow> db \<Rightarrow> response \<times> db" where
  "route_delete d req st =
     (case authorize d req st of
        (Respond r, st') \<Rightarrow> (r, st')
      | (Next req', st') \<Rightarrow> deletePost_controller d req' st')"

section \<open>services/authService.js\<close>

text \<open>
  \<^verbatim>\<open>User.findOne({ email })\<close>: the first stored user with exactly this email, or null.
  The login adds \<^verbatim>\<open>.select('+password')\<close>, which the record always carries.
\<close>

definition User_findOne :: "jstring \<Rightarrow> db \<Rightarrow> user option \<times> db" where
  "User_findOne email st =
     (find (\<lambda>u. user_email u = email) (users st), logged (UserFindOne email) st)"

text \<open>
  Modelled from the spec: the User model (\<^verbatim>\<open>models/User.js\<close>) is not among the
  sources. \<^verbatim>\<open>User.create({ name, email, password })\<close> runs the schema's validation,
  then stores the user under the new id \<open>i\<close> with the email as given and the hash of
  the password in place of the plaintext.
\<close>

definition User_create ::
  "deps \<Rightarrow> oid \<Rightarrow> jstring \<Rightarrow> jstring \<Rightarrow> jstring \<Rightarrow> db \<Rightarrow> (error + user) \<times> db" where
  "User_create d i name email password st =
     (if userSchemaErrors d name email password \<noteq> {}
      then (Inl (ValidationError (userSchemaErrors d name email password)), logged UserCreate st)
      else (let u = \<lparr>user_id = i, user_name = name, user_email = email,
                      user_password = hashPassword d password\<rparr>
            in (Inr u, logged UserCreate (st\<lparr>users := users st @ [u]\<rparr>))))"

text \<open>The object \<^verbatim>\<open>{ id, name, email, token }\<close> that register and login return.\<close>

definition userResponse :: "deps \<Rightarrow> user \<Rightarrow> (string \<times> jstring) list" where
  "userResponse d u =
     [(''id'', user_id u), (''name'', user_name u), (''email'', user_email u),
      (''token'', generateToken d (user_id u))]"

definition register ::
  "deps \<Rightarrow> oid \<Rightarrow> jstring \<Rightarrow> jstring \<Rightarrow> jstring \<Rightarrow> db \<Rightarrow>
     (error + (string \<times> jstring) list) \<times> db" where
  "register d i name email password st =
     (case User_findOne email st of
        (Some existingUser, st') \<Rightarrow> (Inl (Error ''User already exists with this email''), st')
      | (None, st') \<Rightarrow>
          (case User_create d i name email password st' of
             (Inl e, st'') \<Rightarrow> (Inl e, st'')
           | (Inr u, st'') \<Rightarrow> (Inr (userResponse d u), st'')))"

definition login ::
  "deps \<Rightarrow> jstring \<Rightarrow> jstring \<Rightarrow> db \<Rightarrow> (error + (string \<times> jstring) list) \<times> db" where
  "login d email password st =
     (case User_findOne email st of
        (None, st') \<Rightarrow> (Inl (Error ''Invalid credentials''), st')
      | (Some u, st') \<Rightarrow>
          (if \<not> comparePassword d password (user_password u)
           then (Inl (Error ''Invalid credentials''), st')
           else (Inr (userResponse d u), st')))"

text \<open>A sequence of registrations, each with its new id, name, email and password.\<close>

fun registers :: "deps \<Rightarrow> (oid \<times> jstring \<times> jstring \<times> jstring) list \<Rightarrow> db \<Rightarrow> db" where
  "registers d [] st = st"
| "registers d ((i, name, email, password) # rs) st =
     registers d rs (snd (register d i name email password st))"

text \<open>The same store with every stored hash replaced by another one.\<close>

definition rehashed :: "(user \<Rightarrow> jstring) \<Rightarrow> db \<Rightarrow> db" where
  "rehashed h st = st\<lparr>users := map (\<lambda>u. u\<lparr>user_password := h u\<rparr>) (users st)\<rparr>"

text \<open>The same request with another hash in the user that it carries.\<close>

definition with_hash :: "jstring \<Rightarrow> request \<Rightarrow> request" where
  "with_hash x req = req\<lparr>req_user := (req_user req)\<lparr>user_password := x\<rparr>\<rparr>"

section \<open>validations/postSchemas (frontend)\<close>

text \<open>
  \<^verbatim>\<open>content.replace(/<[^>]*>/g, '')\<close>: every stretch from a \<^verbatim>\<open><\<close> (code unit
  60) to the next \<^verbatim>\<open>>\<close> (62) is removed; a \<^verbatim>\<open><\<close> with no \<^verbatim>\<open>>\<close> after it
  stays.
\<close>

function stripTags :: "jstring \<Rightarrow> jstring" where
  "stripTags [] = []"
| "stripTags (c # cs) =
     (if c = 60 \<and> 62 \<in> set cs
      then stripTags (tl (dropWhile (\<lambda>x. x \<noteq> 62) cs))
      else c # stripTags cs)"
  by pat_completeness auto
termination
proof (relation "measure length")
  show "wf (measure length)" by simp
next
  fix c :: nat and cs :: jstring
  have "length (tl (dropWhile (\<lambda>x. x \<noteq> 62) cs)) \<le> length cs"
    using length_dropWhile_le [of "\<lambda>x. x \<noteq> 62" cs] by simp
  then show "(tl (dropWhile (\<lambda>x. x \<noteq> 62) cs), c # cs) \<in> measure length"
    by simp
next
  fix c :: nat and cs :: jstring
  show "(cs, c # cs) \<in> measure length" by simp
qed

text \<open>
  The form's check of a post: the title has between 3 and 200 characters, and the
  content, with its tags removed and trimmed, has at least 10.
\<close>

definition postSchema_form :: "jstring \<Rightarrow> jstring \<Rightarrow> bool" where
  "postSchema_form t c \<longleftrightarrow>
     1 \<le> length t \<and> 3 \<le> length t \<and> length t \<le> 200 \<and>
     1 \<le> length c \<and> 10 \<le> length (trim (stripTags c))"

section \<open>A small store to run the model on\<close>

definition alice_id :: oid where
  "alice_id = ascii ''a00000000000000000000001''"

definition bob_id :: oid where
  "bob_id = ascii ''b00000000000000000000002''"

definition post1_id :: oid where
  "post1_id = ascii ''c00000000000000000000003''"

definition post2_id :: oid where
  "post2_id = ascii ''d00000000000000000000004''"

definition new_id :: oid where
  "new_id = ascii ''e00000000000000000000005''"

definition deps0 :: deps where
  "deps0 =
     \<lparr>cast12 = (\<lambda>s. None),
      hashPassword = (\<lambda>p. ascii ''$h$'' @ rev p),
      comparePassword = (\<lambda>p h. h = ascii ''$h$'' @ rev p),
      userSchemaErrors = (\<lambda>n e p. if length p < 6 then {''Password too short''} else {}),
      generateToken = (\<lambda>i. ascii ''jwt.'' @ i)\<rparr>"

definition alice :: user where
  "alice = \<lparr>user_id = alice_id, user_name = ascii ''Alice'',
            user_email = ascii ''alice@example.com'', user_password = ascii ''$h$terces''\<rparr>"

definition bob :: user where
  "bob = \<lparr>user_id = bob_id, user_name = ascii ''Bob'',
          user_email = ascii ''bob@example.com'', user_password = ascii ''$h$drowssap''\<rparr>"

definition post1 :: post where
  "post1 = \<lparr>post_id = post1_id, title = ascii ''First'',
            content = ascii ''<p>Hello</p>'', authorId = alice_id,
            createdAt = 100, updatedAt = 100\<rparr>"

definition post2 :: post where
  "post2 = \<lparr>post_id = post2_id, title = ascii ''Second'',
            content = ascii ''<p>World</p>'', authorId = bob_id,
            createdAt = 200, updatedAt = 250\<rparr>"

definition db0 :: db where
  "db0 = \<lparr>users = [alice, bob], posts = [post1, post2], calls = []\<rparr>"

definition request0 :: "jstring \<Rightarrow> (string \<times> jstring) list \<Rightarrow> user \<Rightarrow> request" where
  "request0 i b u = \<lparr>params_id = i, body = b, req_user = u, req_post = None\<rparr>"

section \<open>Facts about strings and the store\<close>

lemma ascii_eq [simp]: "ascii a = ascii b \<longleftrightarrow> a = b"
proof -
  have "inj (of_char :: char \<Rightarrow> nat)"
    by (rule injI) simp
  then show ?thesis
    by (simp add: ascii_def inj_map_eq_map)
qed

lemma ascii_Nil [simp]: "ascii s = [] \<longleftrightarrow> s = []"
  by (simp add: ascii_def)

lemma length_ascii [simp]: "length (ascii s) = length s"
  by (simp add: ascii_def)

lemma ascii_append [simp]: "ascii a @ ascii b = ascii (a @ b)"
  by (simp add: ascii_def)

lemma rev_ascii [simp]: "rev (ascii s) = ascii (rev s)"
  by (simp add: ascii_def rev_map)

lemma posts_logged [simp]: "posts (logged k st) = posts st"
  by (simp add: logged_def)

lemma users_logged [simp]: "users (logged k st) = users st"
  by (simp add: logged_def)

lemma calls_logged [simp]: "calls (logged k st) = calls st @ [k]"
  by (simp add: logged_def)

lemma find_post_id: "find (\<lambda>q. post_id q = i) ps = Some p \<Longrightarrow> post_id p = i"
  by (induction ps) (auto split: if_splits)

lemma findById_answer:
  "fst (Post_findById d s st) = Inr x \<Longrightarrow>
     \<exists>i. castObjectId d s = Some i \<and> find (\<lambda>p. post_id p = i) (posts st) = x
        \<and> Post_findById d s st = (Inr x, logged (FindById s) st)"
  by (auto simp: Post_findById_def split: option.splits)

lemma ids_distinct:
  "alice_id \<noteq> bob_id" "bob_id \<noteq> alice_id"
  "post1_id \<noteq> post2_id" "post2_id \<noteq> post1_id"
  "new_id \<noteq> post1_id" "new_id \<noteq> post2_id" "post1_id \<noteq> new_id" "post2_id \<noteq> new_id"
  by (simp_all add: alice_id_def bob_id_def post1_id_def post2_id_def new_id_def)

lemma cast_ids:
  "castObjectId d post1_id = Some post1_id"
  "castObjectId d post2_id = Some post2_id"
  "castObjectId d new_id = Some new_id"
  "castObjectId d (ascii ''C00000000000000000000003'') = Some post1_id"
  "castObjectId d (ascii ''abc'') = None"
  by (simp_all add: castObjectId_def post1_id_def post2_id_def new_id_def ascii_def
      isHexDigit_def toLowerCase_def)

lemma find_post_db0:
  "find (\<lambda>q. post_id q = post1_id) (posts db0) = Some post1"
  "find (\<lambda>q. post_id q = post2_id) (posts db0) = Some post2"
  "find (\<lambda>q. post_id q = new_id) (posts db0) = None"
  by (simp_all add: db0_def post1_def post2_def ids_distinct)

lemma find_user_db0:
  "find (\<lambda>u. user_id u = alice_id) (users db0) = Some alice"
  "find (\<lambda>u. user_id u = bob_id) (users db0) = Some bob"
  by (simp_all add: db0_def alice_def bob_def ids_distinct)

lemma trim_examples:
  "trim (ascii ''  New title  '') = ascii ''New title''"
  "trim (ascii ''   '') = []"
  "trim (ascii ''<b></b>'') = ascii ''<b></b>''"
  "trim (ascii ''New'') = ascii ''New''"
  "trim (ascii ''Third'') = ascii ''Third''"
  "trim [160, 8195, 65279] = []"
  by (simp_all add: trim_def isWhitespace_def ascii_def)

section \<open>The ownership guard\<close>

lemma populate_logged [simp]: "populate fs (logged k st) p = populate fs st p"
  by (simp add: populate_def logged_def)

lemma populate_posts_update [simp]: "populate fs (st\<lparr>posts := ps\<rparr>) p = populate fs st p"
  by (simp add: populate_def)

lemma postSchema_Inr:
  "postSchema t c = Inr (t', c') \<longleftrightarrow> trim t \<noteq> [] \<and> c \<noteq> [] \<and> t' = trim t \<and> c' = c"
  by (auto simp: postSchema_def Let_def)

lemma updatePost_ok:
  assumes "castObjectId d s = Some i" and "find (\<lambda>q. post_id q = i) (posts st) = Some p"
    and "trim t \<noteq> []" and "c \<noteq> []"
  shows "updatePost d now s t c st =
     (Inr (populate [''name'', ''email''] st (p\<lparr>title := trim t, content := c, updatedAt := now\<rparr>)),
      logged (FindByIdAndUpdate s)
        (st\<lparr>posts := update_first i
            (\<lambda>q. q\<lparr>title := trim t, content := c, updatedAt := now\<rparr>) (posts st)\<rparr>))"
proof -
  from assms(3,4) have "postSchema t c = Inr (trim t, c)"
    by (simp add: postSchema_Inr)
  with assms(1,2) show ?thesis
    by (simp add: updatePost_def Post_findByIdAndUpdate_def Let_def)
qed

lemma deletePost_ok:
  assumes "castObjectId d s = Some i" and "find (\<lambda>q. post_id q = i) (posts st) = Some p"
  shows "deletePost d s st =
     (Inr p, logged (FindByIdAndDelete s) (st\<lparr>posts := delete_first i (posts st)\<rparr>))"
  using assms by (simp add: deletePost_def Post_findByIdAndDelete_def)

lemma trim_nonempty: "trim t \<noteq> [] \<Longrightarrow> t \<noteq> []"
  by (auto simp: trim_def)

text \<open>
  Claim C1. Let the request's id name a stored post \<open>p\<close>. For an authenticated caller
  who is not the author of \<open>p\<close>, the PUT and the DELETE route answer 403
  \<^verbatim>\<open>Not authorized to perform this action\<close> from the guard and leave the posts of the
  store as they were. For the author the guard passes the request on with
  \<^verbatim>\<open>req.post\<close> set to \<open>p\<close> and the routes run the update and delete handlers on it:
  the delete answers 200 and \<open>p\<close> is removed from the store; the update, for a title
  that is not empty after trimming and a content that is not empty, answers 200 with
  the updated post, and the store holds \<open>p\<close> with the trimmed title, the content and
  the new \<open>updatedAt\<close>.
\<close>

theorem ownership_guard:
  assumes "fst (Post_findById d (params_id req) st) = Inr (Some p)"
  shows "(authorId p \<noteq> user_id (req_user req) \<longrightarrow>
            (\<exists>st'. route_put d now req st =
                     (failure 403 (Text ''Not authorized to perform this action''), st')
                   \<and> posts st' = posts st)
          \<and> (\<exists>st'. route_delete d req st =
                     (failure 403 (Text ''Not authorized to perform this action''), st')
                   \<and> posts st' = posts st))
       \<and> (authorId p = user_id (req_user req) \<longrightarrow>
            authorize d req st =
              (Next (req\<lparr>req_post := Some p\<rparr>), logged (FindById (params_id req)) st)
          \<and> route_put d now req st =
              updatePost_controller d now (req\<lparr>req_post := Some p\<rparr>)
                (logged (FindById (params_id req)) st)
          \<and> route_delete d req st =
              deletePost_controller d (req\<lparr>req_post := Some p\<rparr>)
                (logged (FindById (params_id req)) st)
          \<and> status (fst (route_delete d req st)) = 200
          \<and> posts (snd (route_delete d req st)) = delete_first (post_id p) (posts st)
          \<and> (map_of (body req) ''title'' = Some t \<and> map_of (body req) ''content'' = Some c
               \<and> trim t \<noteq> [] \<and> c \<noteq> [] \<longrightarrow>
              fst (route_put d now req st) =
                \<lparr>status = 200, success = True,
                 message = Some (Text ''Post updated successfully''),
                 data = PostData (populate [''name'', ''email''] st
                          (p\<lparr>title := trim t, content := c, updatedAt := now\<rparr>))\<rparr>
              \<and> posts (snd (route_put d now req st)) =
                  update_first (post_id p)
                    (\<lambda>q. q\<lparr>title := trim t, content := c, updatedAt := now\<rparr>) (posts st)))"
proof -
  from findById_answer [OF assms] obtain i where
    i: "castObjectId d (params_id req) = Some i"
    and f: "find (\<lambda>q. post_id q = i) (posts st) = Some p"
    and a: "Post_findById d (params_id req) st =
              (Inr (Some p), logged (FindById (params_id req)) st)"
    by blast
  from find_post_id [OF f] have pi: "post_id p = i" .
  let ?st = "logged (FindById (params_id req)) st"
  have f': "find (\<lambda>q. post_id q = i) (posts ?st) = Some p"
    using f by simp
  have nonowner: "authorId p \<noteq> user_id (req_user req) \<Longrightarrow>
      authorize d req st =
        (Respond (failure 403 (Text ''Not authorized to perform this action'')), ?st)"
    by (simp add: authorize_def a)
  have owner: "authorId p = user_id (req_user req) \<Longrightarrow>
      authorize d req st = (Next (req\<lparr>req_post := Some p\<rparr>), ?st)"
    by (simp add: authorize_def a)
  have del: "deletePost_controller d (req\<lparr>req_post := Some p\<rparr>) ?st =
      (\<lparr>status = 200, success = True, message = Some (Text ''Post deleted successfully''),
        data = NoData\<rparr>,
       logged (FindByIdAndDelete (params_id req)) (?st\<lparr>posts := delete_first i (posts ?st)\<rparr>))"
    using deletePost_ok [OF i f'] by (simp add: deletePost_controller_def)
  have upd: "updatePost_controller d now (req\<lparr>req_post := Some p\<rparr>) ?st =
      (\<lparr>status = 200, success = True, message = Some (Text ''Post updated successfully''),
        data = PostData (populate [''name'', ''email''] st
                 (p\<lparr>title := trim t, content := c, updatedAt := now\<rparr>))\<rparr>,
       logged (FindByIdAndUpdate (params_id req))
         (?st\<lparr>posts := update_first i
            (\<lambda>q. q\<lparr>title := trim t, content := c, updatedAt := now\<rparr>) (posts ?st)\<rparr>))"
    if "map_of (body req) ''title'' = Some t" "map_of (body req) ''content'' = Some c"
      "trim t \<noteq> []" "c \<noteq> []"
    using updatePost_ok [OF i f' that(3,4), of now] that trim_nonempty [OF that(3)]
    by (simp add: updatePost_controller_def falsy_def)
  show ?thesis
  proof (intro conjI impI)
    assume n: "authorId p \<noteq> user_id (req_user req)"
    show "\<exists>st'. route_put d now req st =
                     (failure 403 (Text ''Not authorized to perform this action''), st')
                   \<and> posts st' = posts st"
      by (simp add: route_put_def nonowner [OF n])
    show "\<exists>st'. route_delete d req st =
                     (failure 403 (Text ''Not authorized to perform this action''), st')
                   \<and> posts st' = posts st"
      by (simp add: route_delete_def nonowner [OF n])
  next
    assume o: "authorId p = user_id (req_user req)"
    show "authorize d req st = (Next (req\<lparr>req_post := Some p\<rparr>), ?st)"
      by (rule owner [OF o])
    show "route_put d now req st = updatePost_controller d now (req\<lparr>req_post := Some p\<rparr>) ?st"
      by (simp add: route_put_def owner [OF o])
    show rd: "route_delete d req st = deletePost_controller d (req\<lparr>req_post := Some p\<rparr>) ?st"
      by (simp add: route_delete_def owner [OF o])
    show "status (fst (route_delete d req st)) = 200"
      by (simp add: rd del)
    show "posts (snd (route_delete d req st)) = delete_first (post_id p) (posts st)"
      by (simp add: rd del pi)
  next
    assume o: "authorId p = user_id (req_user req)"
      and b: "map_of (body req) ''title'' = Some t \<and> map_of (body req) ''content'' = Some c
               \<and> trim t \<noteq> [] \<and> c \<noteq> []"
    have rp: "route_put d now req st =
        updatePost_controller d now (req\<lparr>req_post := Some p\<rparr>) ?st"
      by (simp add: route_put_def owner [OF o])
    from b have u: "updatePost_controller d now (req\<lparr>req_post := Some p\<rparr>) ?st =
      (\<lparr>status = 200, success = True, message = Some (Text ''Post updated successfully''),
        data = PostData (populate [''name'', ''email''] st
                 (p\<lparr>title := trim t, content := c, updatedAt := now\<rparr>))\<rparr>,
       logged (FindByIdAndUpdate (params_id req))
         (?st\<lparr>posts := update_first i
            (\<lambda>q. q\<lparr>title := trim t, content := c, updatedAt := now\<rparr>) (posts ?st)\<rparr>))"
      using upd by blast
    show "fst (route_put d now req st) =
                \<lparr>status = 200, success = True,
                 message = Some (Text ''Post updated successfully''),
                 data = PostData (populate [''name'', ''email''] st
                          (p\<lparr>title := trim t, content := c, updatedAt := now\<rparr>))\<rparr>"
      by (simp add: rp u)
    show "posts (snd (route_put d now req st)) =
                  update_first (post_id p)
                    (\<lambda>q. q\<lparr>title := trim t, content := c, updatedAt := now\<rparr>) (posts st)"
      by (simp add: rp u pi)
  qed
qed

theorem ownership_guard_witness:
  "fst (Post_findById deps0 post1_id db0) = Inr (Some post1)
   \<and> authorId post1 \<noteq> user_id bob \<and> authorId post1 = user_id alice
   \<and> fst (route_put deps0 300 (request0 post1_id
             [(''title'', ascii ''New''), (''content'', ascii ''text'')] bob) db0) =
         failure 403 (Text ''Not authorized to perform this action'')
   \<and> posts (snd (route_put deps0 300 (request0 post1_id
             [(''title'', ascii ''New''), (''content'', ascii ''text'')] bob) db0)) =
         [post1, post2]
   \<and> fst (route_delete deps0 (request0 post1_id [] bob) db0) =
         failure 403 (Text ''Not authorized to perform this action'')
   \<and> status (fst (route_delete deps0 (request0 post1_id [] alice) db0)) = 200
   \<and> posts (snd (route_delete deps0 (request0 post1_id [] alice) db0)) = [post2]
   \<and> status (fst (route_put deps0 300 (request0 post1_id
             [(''title'', ascii ''  New title  ''), (''content'', ascii ''text'')] alice) db0)) = 200
   \<and> posts (snd (route_put deps0 300 (request0 post1_id
             [(''title'', ascii ''  New title  ''), (''content'', ascii ''text'')] alice) db0)) =
         [post1\<lparr>title := ascii ''New title'', content := ascii ''text'', updatedAt := 300\<rparr>,
          post2]"
proof -
  let ?b1 = "[(''title'', ascii ''New''), (''content'', ascii ''text'')]"
  let ?b2 = "[(''title'', ascii ''  New title  ''), (''content'', ascii ''text'')]"
  have h0: "fst (Post_findById deps0 post1_id db0) = Inr (Some post1)"
    by (simp add: Post_findById_def cast_ids find_post_db0)
  then have h: "fst (Post_findById deps0 (params_id (request0 post1_id b u)) db0)
             = Inr (Some post1)" for b u
    by (simp add: request0_def)
  have n: "authorId post1 \<noteq> user_id (req_user (request0 post1_id b bob))" for b
    by (simp add: request0_def post1_def bob_def ids_distinct)
  have o: "authorId post1 = user_id (req_user (request0 post1_id b alice))" for b
    by (simp add: request0_def post1_def alice_def)
  have ids: "authorId post1 \<noteq> user_id bob" "authorId post1 = user_id alice"
    by (simp_all add: post1_def alice_def bob_def ids_distinct)
  from ownership_guard [OF h, where now = 300 and b1 = ?b1 and u1 = bob] n
  obtain st' where
    "route_put deps0 300 (request0 post1_id ?b1 bob) db0 =
       (failure 403 (Text ''Not authorized to perform this action''), st')"
    "posts st' = posts db0"
    by blast
  then have p1: "fst (route_put deps0 300 (request0 post1_id ?b1 bob) db0) =
         failure 403 (Text ''Not authorized to perform this action'')"
    and p2: "posts (snd (route_put deps0 300 (request0 post1_id ?b1 bob) db0)) = [post1, post2]"
    by (simp_all add: db0_def)
  from ownership_guard [OF h, where now = 300 and b1 = "[]" and u1 = bob] n
  obtain st'' where
    "route_delete deps0 (request0 post1_id [] bob) db0 =
       (failure 403 (Text ''Not authorized to perform this action''), st'')"
    by blast
  then have d1: "fst (route_delete deps0 (request0 post1_id [] bob) db0) =
         failure 403 (Text ''Not authorized to perform this action'')"
    by simp
  from ownership_guard [OF h, where now = 300 and b1 = "[]" and u1 = alice] o
  have d2: "status (fst (route_delete deps0 (request0 post1_id [] alice) db0)) = 200"
    and d3: "posts (snd (route_delete deps0 (request0 post1_id [] alice) db0)) =
        delete_first (post_id post1) (posts db0)"
    by blast+
  have d4: "delete_first (post_id post1) (posts db0) = [post2]"
    by (simp add: db0_def post1_def)
  have b: "map_of (body (request0 post1_id ?b2 alice)) ''title'' = Some (ascii ''  New title  '')
      \<and> map_of (body (request0 post1_id ?b2 alice)) ''content'' = Some (ascii ''text'')
      \<and> trim (ascii ''  New title  '') \<noteq> [] \<and> ascii ''text'' \<noteq> []"
    by (simp add: request0_def trim_examples)
  from ownership_guard [OF h, where now = 300 and b1 = ?b2 and u1 = alice
      and t = "ascii ''  New title  ''" and c = "ascii ''text''"] o b
  have u1: "fst (route_put deps0 300 (request0 post1_id ?b2 alice) db0) =
                \<lparr>status = 200, success = True,
                 message = Some (Text ''Post updated successfully''),
                 data = PostData (populate [''name'', ''email''] db0
                          (post1\<lparr>title := trim (ascii ''  New title  ''),
                                 content := ascii ''text'', updatedAt := 300\<rparr>))\<rparr>"
    and u2: "posts (snd (route_put deps0 300 (request0 post1_id ?b2 alice) db0)) =
                  update_first (post_id post1)
                    (\<lambda>q. q\<lparr>title := trim (ascii ''  New title  ''),
                           content := ascii ''text'', updatedAt := 300\<rparr>) (posts db0)"
    by blast+
  have u3: "update_first (post_id post1)
                    (\<lambda>q. q\<lparr>title := trim (ascii ''  New title  ''),
                           content := ascii ''text'', updatedAt := 300\<rparr>) (posts db0) =
        [post1\<lparr>title := ascii ''New title'', content := ascii ''text'', updatedAt := 300\<rparr>,
          post2]"
    by (simp add: db0_def trim_examples)
  from u1 have u4: "status (fst (route_put deps0 300 (request0 post1_id ?b2 alice) db0)) = 200"
    by simp
  show ?thesis
    using h0 ids p1 p2 d1 d2 d3 d4 u2 u3 u4 by (intro conjI) simp_all
qed

text \<open>
  Claim C2, as the code has it. For an id that casts to an ObjectId under which the
  store holds no post, the guard answers 404 \<^verbatim>\<open>Post not found\<close>. For an id that does
  not cast to an ObjectId the lookup is rejected and the \<^verbatim>\<open>catch\<close> of the guard
  answers 500 \<^verbatim>\<open>Error checking authorization\<close>. In both cases the caller is not
  looked at: the outcome is the same for every authenticated caller.
\<close>

theorem authorize_missing_post:
  "(castObjectId d (params_id req) = Some i \<and> i \<notin> post_id ` set (posts st) \<longrightarrow>
      authorize d req st =
        (Respond (failure 404 (Text ''Post not found'')), logged (FindById (params_id req)) st))
   \<and> (castObjectId d (params_id req) = None \<longrightarrow>
      authorize d req st =
        (Respond (failure 500 (Text ''Error checking authorization'')),
         logged (FindById (params_id req)) st))
   \<and> ((\<forall>j. castObjectId d (params_id req) = Some j \<longrightarrow> j \<notin> post_id ` set (posts st)) \<longrightarrow>
      authorize d (req\<lparr>req_user := u\<rparr>) st = authorize d req st)"
proof (intro conjI impI)
  assume "castObjectId d (params_id req) = Some i \<and> i \<notin> post_id ` set (posts st)"
  then have c: "castObjectId d (params_id req) = Some i"
    and "find (\<lambda>p. post_id p = i) (posts st) = None"
    by (auto simp: find_None_iff)
  then show "authorize d req st =
        (Respond (failure 404 (Text ''Post not found'')), logged (FindById (params_id req)) st)"
    by (simp add: authorize_def Post_findById_def)
next
  assume "castObjectId d (params_id req) = None"
  then show "authorize d req st =
        (Respond (failure 500 (Text ''Error checking authorization'')),
         logged (FindById (params_id req)) st)"
    by (simp add: authorize_def Post_findById_def)
next
  assume a: "\<forall>j. castObjectId d (params_id req) = Some j \<longrightarrow> j \<notin> post_id ` set (posts st)"
  show "authorize d (req\<lparr>req_user := u\<rparr>) st = authorize d req st"
  proof (cases "castObjectId d (params_id req)")
    case None
    then show ?thesis by (simp add: authorize_def Post_findById_def)
  next
    case (Some j)
    with a have "find (\<lambda>p. post_id p = j) (posts st) = None"
      by (auto simp: find_None_iff)
    with Some show ?thesis by (simp add: authorize_def Post_findById_def)
  qed
qed

theorem authorize_missing_post_witness:
  "castObjectId deps0 new_id = Some new_id \<and> new_id \<notin> post_id ` set (posts db0)
   \<and> authorize deps0 (request0 new_id [] bob) db0 =
       (Respond (failure 404 (Text ''Post not found'')), logged (FindById new_id) db0)
   \<and> authorize deps0 (request0 new_id [] alice) db0 =
       authorize deps0 (request0 new_id [] bob) db0
   \<and> castObjectId deps0 (ascii ''abc'') = None
   \<and> authorize deps0 (request0 (ascii ''abc'') [] bob) db0 =
       (Respond (failure 500 (Text ''Error checking authorization'')),
        logged (FindById (ascii ''abc'')) db0)
   \<and> authorize deps0 (request0 (ascii ''abc'') [] alice) db0 =
       authorize deps0 (request0 (ascii ''abc'') [] bob) db0"
proof -
  have c: "castObjectId deps0 (params_id (request0 new_id [] bob)) = Some new_id"
    by (simp add: request0_def cast_ids)
  have m: "new_id \<notin> post_id ` set (posts db0)"
    by (simp add: db0_def post1_def post2_def ids_distinct)
  have c': "castObjectId deps0 (params_id (request0 (ascii ''abc'') [] bob)) = None"
    by (simp add: request0_def cast_ids)
  have e: "(request0 s [] bob)\<lparr>req_user := alice\<rparr> = request0 s [] alice" for s
    by (simp add: request0_def)
  from authorize_missing_post [where d = deps0 and req = "request0 new_id [] bob"
         and i = new_id and st = db0 and u = alice] c m
  have a1: "authorize deps0 (request0 new_id [] bob) db0 =
       (Respond (failure 404 (Text ''Post not found'')),
        logged (FindById (params_id (request0 new_id [] bob))) db0)"
    and a2: "authorize deps0 ((request0 new_id [] bob)\<lparr>req_user := alice\<rparr>) db0 =
       authorize deps0 (request0 new_id [] bob) db0"
    by simp_all
  from authorize_missing_post [where d = deps0 and req = "request0 (ascii ''abc'') [] bob"
         and st = db0 and u = alice] c'
  have b1: "authorize deps0 (request0 (ascii ''abc'') [] bob) db0 =
       (Respond (failure 500 (Text ''Error checking authorization'')),
        logged (FindById (params_id (request0 (ascii ''abc'') [] bob))) db0)"
    and b2: "authorize deps0 ((request0 (ascii ''abc'') [] bob)\<lparr>req_user := alice\<rparr>) db0 =
       authorize deps0 (request0 (ascii ''abc'') [] bob) db0"
    by simp_all
  have p: "params_id (request0 s [] bob) = s" for s
    by (simp add: request0_def)
  from a1 a2 b1 b2 c c' m show ?thesis
    by (simp add: e p)
qed

text \<open>
  Claim C2, as it is stated, fails: the store holds no post under the id
  \<^verbatim>\<open>abc\<close>, and the guard answers 500, not 404.
\<close>

theorem authorize_malformed_id_500:
  "ascii ''abc'' \<notin> post_id ` set (posts db0)
   \<and> fst (authorize deps0 (request0 (ascii ''abc'') [] alice) db0) =
       Respond (failure 500 (Text ''Error checking authorization''))"
  by (simp add: authorize_def Post_findById_def request0_def cast_ids db0_def post1_def
      post2_def post1_id_def post2_id_def)

section \<open>Registration and login\<close>

lemma find_email_None: "find (\<lambda>u. user_email u = email) us = None \<longleftrightarrow> email \<notin> user_email ` set us"
  by (auto simp: find_None_iff)

lemma find_email_Some:
  "find (\<lambda>u. user_email u = email) us = Some u \<Longrightarrow> u \<in> set us \<and> user_email u = email"
  by (induction us) (auto split: if_splits)

lemma register_users:
  "users (snd (register d i name email password st)) = users st
   \<or> (email \<notin> user_email ` set (users st)
      \<and> (\<exists>u. user_email u = email
             \<and> users (snd (register d i name email password st)) = users st @ [u]))"
  by (auto simp: register_def User_findOne_def User_create_def Let_def find_email_None
      split: option.splits)

lemma register_distinct:
  assumes "distinct (map user_email (users st))"
  shows "distinct (map user_email (users (snd (register d i name email password st))))"
  using register_users [of d i name email password st] assms by auto

lemma registers_distinct:
  "distinct (map user_email (users st)) \<Longrightarrow>
     distinct (map user_email (users (registers d rs st)))"
proof (induction rs arbitrary: st)
  case Nil
  then show ?case by simp
next
  case (Cons r rs)
  obtain i name email password where r: "r = (i, name, email, password)"
    by (cases r) auto
  from Cons.prems have "distinct (map user_email (users (snd (register d i name email password st))))"
    by (rule register_distinct)
  from Cons.IH [OF this] show ?case by (simp add: r)
qed



text \<open>
  Claim C4. A registration with the email of a stored user fails with
  \<^verbatim>\<open>new Error('User already exists with this email')\<close> and leaves the users as they
  were; and from a store where no two users share an email, every sequence of
  registrations leads to a store where no two users share an email.
\<close>

theorem register_duplicate_email:
  "(email \<in> user_email ` set (users st) \<longrightarrow>
      register d i name email password st =
        (Inl (Error ''User already exists with this email''), logged (UserFindOne email) st))
   \<and> (distinct (map user_email (users st)) \<longrightarrow>
        distinct (map user_email (users (registers d rs st))))"
proof -
  have "email \<in> user_email ` set (users st) \<Longrightarrow>
          \<exists>u. find (\<lambda>u. user_email u = email) (users st) = Some u"
    using find_email_None [of email "users st"] by (cases "find (\<lambda>u. user_email u = email) (users st)") auto
  then show ?thesis
    by (auto simp: register_def User_findOne_def registers_distinct)
qed

theorem register_duplicate_email_witness:
  "(ascii ''bob@example.com'') \<in> user_email ` set (users db0)
   \<and> register deps0 new_id (ascii ''Robert'') (ascii ''bob@example.com'') (ascii ''hunter22'') db0 =
       (Inl (Error ''User already exists with this email''),
        logged (UserFindOne (ascii ''bob@example.com'')) db0)
   \<and> distinct (map user_email (users db0))
   \<and> distinct (map user_email (users (registers deps0
        [(new_id, (ascii ''Carol''), (ascii ''carol@example.com''), (ascii ''hunter22'')),
         (post2_id, (ascii ''Carol''), (ascii ''carol@example.com''), (ascii ''hunter23''))] db0)))
   \<and> map user_email (users (registers deps0
        [(new_id, (ascii ''Carol''), (ascii ''carol@example.com''), (ascii ''hunter22'')),
         (post2_id, (ascii ''Carol''), (ascii ''carol@example.com''), (ascii ''hunter23''))] db0)) =
       [(ascii ''alice@example.com''), (ascii ''bob@example.com''), (ascii ''carol@example.com'')]"
proof -
  have a: "(ascii ''bob@example.com'') \<in> user_email ` set (users db0)"
    by (simp add: db0_def alice_def bob_def)
  have b: "distinct (map user_email (users db0))"
    by (simp add: db0_def alice_def bob_def)
  have c: "map user_email (users (registers deps0
        [(new_id, (ascii ''Carol''), (ascii ''carol@example.com''), (ascii ''hunter22'')),
         (post2_id, (ascii ''Carol''), (ascii ''carol@example.com''), (ascii ''hunter23''))] db0)) =
       [(ascii ''alice@example.com''), (ascii ''bob@example.com''), (ascii ''carol@example.com'')]"
    by (simp add: register_def User_findOne_def User_create_def logged_def db0_def alice_def
        bob_def deps0_def Let_def)
  from register_duplicate_email [where email = "(ascii ''bob@example.com'')" and st = db0
         and d = deps0 and i = new_id and name = "(ascii ''Robert'')"
         and password = "(ascii ''hunter22'')" and rs =
         "[(new_id, (ascii ''Carol''), (ascii ''carol@example.com''), (ascii ''hunter22'')),
           (post2_id, (ascii ''Carol''), (ascii ''carol@example.com''), (ascii ''hunter23''))]"] a b c
  show ?thesis by simp
qed

section \<open>What a response shows of a user\<close>

lemma rehashed_simps [simp]:
  "posts (rehashed h st) = posts st"
  "calls (rehashed h st) = calls st"
  "users (rehashed h st) = map (\<lambda>u. u\<lparr>user_password := h u\<rparr>) (users st)"
  by (simp_all add: rehashed_def)

lemma rehashed_logged: "logged k (rehashed h st) = rehashed h (logged k st)"
  by (simp add: rehashed_def logged_def)

lemma rehashed_posts_update:
  "(rehashed h st)\<lparr>posts := ps\<rparr> = rehashed h (st\<lparr>posts := ps\<rparr>)"
  by (simp add: rehashed_def)

lemma find_user_rehashed:
  "find (\<lambda>u. user_id u = a) (map (\<lambda>u. u\<lparr>user_password := h u\<rparr>) us) =
     map_option (\<lambda>u. u\<lparr>user_password := h u\<rparr>) (find (\<lambda>u. user_id u = a) us)"
  by (induction us) auto

lemma find_email_rehashed:
  "find (\<lambda>u. user_email u = e) (map (\<lambda>u. u\<lparr>user_password := h u\<rparr>) us) =
     map_option (\<lambda>u. u\<lparr>user_password := h u\<rparr>) (find (\<lambda>u. user_email u = e) us)"
  by (induction us) auto

lemma select_name_email:
  "select_fields [''name'', ''email''] u =
     [(''_id'', user_id u), (''name'', user_name u), (''email'', user_email u)]"
  by (simp add: select_fields_def user_field_def)

lemma select_rehashed:
  "select_fields [''name'', ''email''] \<circ> (\<lambda>u. u\<lparr>user_password := h u\<rparr>) =
     select_fields [''name'', ''email'']"
  by (rule ext) (simp add: select_name_email)

lemma populate_rehashed:
  "populate [''name'', ''email''] (rehashed h st) p = populate [''name'', ''email''] st p"
  by (simp add: populate_def find_user_rehashed option.map_comp select_rehashed)

lemma populate_author_keys:
  "doc_author (populate [''name'', ''email''] st p) = Some a \<Longrightarrow>
     map fst a = [''_id'', ''name'', ''email'']"
  by (auto simp: populate_def select_name_email)

lemma getAllPosts_fst:
  "fst (getAllPosts st) = map (populate [''name'', ''email''] st) (sort_createdAt_desc (posts st))"
  by (simp add: getAllPosts_def Post_find_sorted_def)

lemma getPostById_fst:
  "fst (getPostById d s st) =
     (case castObjectId d s of
        None \<Rightarrow> Inl (CastError s)
      | Some i \<Rightarrow>
          (case find (\<lambda>p. post_id p = i) (posts st) of
             None \<Rightarrow> Inl (Error ''Post not found'')
           | Some p \<Rightarrow> Inr (populate [''name'', ''email''] st p)))"
  by (simp add: getPostById_def Post_findById_def split: option.splits)

lemma userResponse_rehashed [simp]:
  "userResponse d (u\<lparr>user_password := x\<rparr>) = userResponse d u"
  by (simp add: userResponse_def)

lemma login_fst:
  "fst (login d email password st) =
     (case find (\<lambda>u. user_email u = email) (users st) of
        None \<Rightarrow> Inl (Error ''Invalid credentials'')
      | Some u \<Rightarrow> if comparePassword d password (user_password u)
                  then Inr (userResponse d u) else Inl (Error ''Invalid credentials''))"
  by (simp add: login_def User_findOne_def split: option.splits)

lemma register_fst:
  "fst (register d i name email password st) =
     (case find (\<lambda>u. user_email u = email) (users st) of
        Some u \<Rightarrow> Inl (Error ''User already exists with this email'')
      | None \<Rightarrow> if userSchemaErrors d name email password \<noteq> {}
                then Inl (ValidationError (userSchemaErrors d name email password))
                else Inr [(''id'', i), (''name'', name), (''email'', email),
                          (''token'', generateToken d i)])"
  by (simp add: register_def User_findOne_def User_create_def Let_def userResponse_def
      split: option.splits)

lemma authorize_rehashed:
  "authorize d req (rehashed h st) = map_prod id (rehashed h) (authorize d req st)"
  by (simp add: authorize_def Post_findById_def rehashed_logged split: option.splits)

lemma getAllPosts_rehashed:
  "getAllPosts (rehashed h st) = map_prod id (rehashed h) (getAllPosts st)"
  by (simp add: getAllPosts_def Post_find_sorted_def rehashed_logged populate_rehashed)

lemma getPostById_rehashed:
  "getPostById d i (rehashed h st) = map_prod id (rehashed h) (getPostById d i st)"
  by (simp add: getPostById_def Post_findById_def rehashed_logged populate_rehashed
      split: option.splits)

lemma createPost_rehashed:
  "createPost i now t c a (rehashed h st) = map_prod id (rehashed h) (createPost i now t c a st)"
  by (simp add: createPost_def Post_create_def Let_def rehashed_logged rehashed_posts_update
      populate_rehashed split: sum.splits prod.splits)

lemma updatePost_rehashed:
  "updatePost d now i t c (rehashed h st) = map_prod id (rehashed h) (updatePost d now i t c st)"
  by (simp add: updatePost_def Post_findByIdAndUpdate_def Let_def rehashed_logged
      rehashed_posts_update populate_rehashed split: sum.splits prod.splits option.splits)

lemma deletePost_rehashed:
  "deletePost d i (rehashed h st) = map_prod id (rehashed h) (deletePost d i st)"
  by (simp add: deletePost_def Post_findByIdAndDelete_def rehashed_logged
      rehashed_posts_update split: option.splits)

lemma getAllPosts_controller_rehashed:
  "getAllPosts_controller req (rehashed h st) =
     map_prod id (rehashed h) (getAllPosts_controller req st)"
  by (simp add: getAllPosts_controller_def getAllPosts_rehashed split: prod.splits)

lemma getPostById_controller_rehashed:
  "getPostById_controller d req (rehashed h st) =
     map_prod id (rehashed h) (getPostById_controller d req st)"
  by (simp add: getPostById_controller_def getPostById_rehashed split: prod.splits sum.splits)

lemma createPost_controller_rehashed:
  "createPost_controller i now req (rehashed h st) =
     map_prod id (rehashed h) (createPost_controller i now req st)"
  by (simp add: createPost_controller_def createPost_rehashed Let_def
      split: prod.splits sum.splits)

lemma updatePost_controller_rehashed:
  "updatePost_controller d now req (rehashed h st) =
     map_prod id (rehashed h) (updatePost_controller d now req st)"
  by (simp add: updatePost_controller_def updatePost_rehashed Let_def
      split: prod.splits sum.splits)

lemma deletePost_controller_rehashed:
  "deletePost_controller d req (rehashed h st) =
     map_prod id (rehashed h) (deletePost_controller d req st)"
  by (simp add: deletePost_controller_def deletePost_rehashed split: prod.splits sum.splits)

lemma route_put_rehashed:
  "route_put d now req (rehashed h st) = map_prod id (rehashed h) (route_put d now req st)"
  by (simp add: route_put_def authorize_rehashed updatePost_controller_rehashed
      split: prod.splits gate.splits)

lemma route_delete_rehashed:
  "route_delete d req (rehashed h st) = map_prod id (rehashed h) (route_delete d req st)"
  by (simp add: route_delete_def authorize_rehashed deletePost_controller_rehashed
      split: prod.splits gate.splits)

lemma authorize_with_hash:
  "authorize d (with_hash x req) st =
     (case authorize d req st of
        (Respond r, st') \<Rightarrow> (Respond r, st')
      | (Next req', st') \<Rightarrow> (Next (with_hash x req'), st'))"
  by (simp add: authorize_def with_hash_def Post_findById_def split: option.splits)

lemma updatePost_controller_with_hash:
  "updatePost_controller d now (with_hash x req) st = updatePost_controller d now req st"
  by (simp add: updatePost_controller_def with_hash_def Let_def cong: if_cong)

lemma deletePost_controller_with_hash:
  "deletePost_controller d (with_hash x req) st = deletePost_controller d req st"
  by (simp add: deletePost_controller_def with_hash_def)

lemma createPost_controller_with_hash:
  "createPost_controller i now (with_hash x req) st = createPost_controller i now req st"
  by (simp add: createPost_controller_def with_hash_def Let_def cong: if_cong)

lemma getPostById_controller_with_hash:
  "getPostById_controller d (with_hash x req) st = getPostById_controller d req st"
  by (simp add: getPostById_controller_def with_hash_def)

lemma getAllPosts_controller_with_hash:
  "getAllPosts_controller (with_hash x req) st = getAllPosts_controller req st"
  by (simp add: getAllPosts_controller_def)

lemma route_put_with_hash:
  "route_put d now (with_hash x req) st = route_put d now req st"
  by (simp add: route_put_def authorize_with_hash updatePost_controller_with_hash
      split: prod.splits gate.splits)

lemma route_delete_with_hash:
  "route_delete d (with_hash x req) st = route_delete d req st"
  by (simp add: route_delete_def authorize_with_hash deletePost_controller_with_hash
      split: prod.splits gate.splits)

text \<open>
  Claim C6. The stored hash is in no answer. What register returns is the error of a
  taken email, the error of the User schema on the submitted fields, or exactly the
  fields id, name, email and token of the new user; what login returns is the error
  \<^verbatim>\<open>Invalid credentials\<close> or exactly these four fields of a stored user. The author
  of a post in the answers of list and get has exactly the fields \<^verbatim>\<open>_id\<close>, name and
  email. And what the caller receives from the list, get, create, update and delete
  routes is the same when every stored hash, and the hash in the user that the
  request carries, is replaced by any other text; so is what register returns, and
  what login returns whenever it succeeds on both stores.
\<close>

theorem no_password_outward:
  "(fst (register d i name email password st) = Inl (Error ''User already exists with this email'')
      \<or> fst (register d i name email password st) =
          Inl (ValidationError (userSchemaErrors d name email password))
      \<or> fst (register d i name email password st) =
          Inr [(''id'', i), (''name'', name), (''email'', email), (''token'', generateToken d i)])
   \<and> (fst (login d email password st) = Inl (Error ''Invalid credentials'')
      \<or> (\<exists>u \<in> set (users st). fst (login d email password st) =
            Inr [(''id'', user_id u), (''name'', user_name u), (''email'', user_email u),
                 (''token'', generateToken d (user_id u))]))
   \<and> (\<forall>doc \<in> set (fst (getAllPosts st)). \<forall>a.
         doc_author doc = Some a \<longrightarrow> map fst a = [''_id'', ''name'', ''email''])
   \<and> (fst (getPostById d postId st) = Inr doc \<and> doc_author doc = Some a \<longrightarrow>
         map fst a = [''_id'', ''name'', ''email''])
   \<and> fst (getAllPosts_controller (with_hash x req) (rehashed h st)) =
       fst (getAllPosts_controller req st)
   \<and> fst (getPostById_controller d (with_hash x req) (rehashed h st)) =
       fst (getPostById_controller d req st)
   \<and> fst (createPost_controller i now (with_hash x req) (rehashed h st)) =
       fst (createPost_controller i now req st)
   \<and> fst (route_put d now (with_hash x req) (rehashed h st)) = fst (route_put d now req st)
   \<and> fst (route_delete d (with_hash x req) (rehashed h st)) = fst (route_delete d req st)
   \<and> fst (register d i name email password (rehashed h st)) =
       fst (register d i name email password st)
   \<and> (fst (login d email password st) = Inr s \<and>
      fst (login d email password' (rehashed h st)) = Inr s' \<longrightarrow> s' = s)"
proof -
  have reg: "fst (register d i name email password st) =
        Inl (Error ''User already exists with this email'')
      \<or> fst (register d i name email password st) =
          Inl (ValidationError (userSchemaErrors d name email password))
      \<or> fst (register d i name email password st) =
          Inr [(''id'', i), (''name'', name), (''email'', email), (''token'', generateToken d i)]"
    by (simp add: register_fst split: option.splits)
  have log: "fst (login d email password st) = Inl (Error ''Invalid credentials'')
      \<or> (\<exists>u \<in> set (users st). fst (login d email password st) =
            Inr [(''id'', user_id u), (''name'', user_name u), (''email'', user_email u),
                 (''token'', generateToken d (user_id u))])"
    by (auto simp: login_fst userResponse_def split: option.splits dest: find_email_Some)
  have lst: "\<forall>doc \<in> set (fst (getAllPosts st)). \<forall>a.
         doc_author doc = Some a \<longrightarrow> map fst a = [''_id'', ''name'', ''email'']"
    by (auto simp: getAllPosts_fst dest: populate_author_keys)
  have get: "fst (getPostById d postId st) = Inr doc \<and> doc_author doc = Some a \<longrightarrow>
         map fst a = [''_id'', ''name'', ''email'']"
    by (auto simp: getPostById_fst split: option.splits dest: populate_author_keys)
  have routes:
    "fst (getAllPosts_controller (with_hash x req) (rehashed h st)) =
       fst (getAllPosts_controller req st)"
    "fst (getPostById_controller d (with_hash x req) (rehashed h st)) =
       fst (getPostById_controller d req st)"
    "fst (createPost_controller i now (with_hash x req) (rehashed h st)) =
       fst (createPost_controller i now req st)"
    "fst (route_put d now (with_hash x req) (rehashed h st)) = fst (route_put d now req st)"
    "fst (route_delete d (with_hash x req) (rehashed h st)) = fst (route_delete d req st)"
    by (simp_all add: getAllPosts_controller_with_hash getPostById_controller_with_hash
        createPost_controller_with_hash route_put_with_hash route_delete_with_hash
        getAllPosts_controller_rehashed getPostById_controller_rehashed
        createPost_controller_rehashed route_put_rehashed route_delete_rehashed)
  have reg': "fst (register d i name email password (rehashed h st)) =
       fst (register d i name email password st)"
    by (simp add: register_fst find_email_rehashed split: option.splits)
  have log': "fst (login d email password st) = Inr s \<and>
      fst (login d email password' (rehashed h st)) = Inr s' \<longrightarrow> s' = s"
    by (auto simp: login_fst find_email_rehashed split: option.splits if_splits)
  show ?thesis
    by (intro conjI) (rule reg, rule log, rule lst, rule get, (rule routes)+, rule reg', rule log')
qed

theorem no_password_outward_witness:
  "fst (register deps0 new_id (ascii ''Carol'') (ascii ''carol@example.com'') (ascii ''hunter22'')
          db0) =
     Inr [(''id'', new_id), (''name'', ascii ''Carol''),
          (''email'', ascii ''carol@example.com''), (''token'', ascii ''jwt.'' @ new_id)]
   \<and> fst (login deps0 (ascii ''alice@example.com'') (ascii ''secret'') db0) =
     Inr [(''id'', alice_id), (''name'', ascii ''Alice''),
          (''email'', ascii ''alice@example.com''), (''token'', ascii ''jwt.'' @ alice_id)]
   \<and> fst (login deps0 (ascii ''alice@example.com'') (ascii ''guess'') db0) =
     Inl (Error ''Invalid credentials'')
   \<and> map doc_author (fst (getAllPosts db0)) =
     [Some [(''_id'', bob_id), (''name'', ascii ''Bob''), (''email'', ascii ''bob@example.com'')],
      Some [(''_id'', alice_id), (''name'', ascii ''Alice''),
            (''email'', ascii ''alice@example.com'')]]
   \<and> map_sum id doc_author (fst (getPostById deps0 post1_id db0)) =
     Inr (Some [(''_id'', alice_id), (''name'', ascii ''Alice''),
                (''email'', ascii ''alice@example.com'')])
   \<and> fst (createPost_controller new_id 300
        (with_hash (ascii ''x'')
           (request0 [] [(''title'', ascii ''New''), (''content'', ascii ''text'')] alice))
        (rehashed (\<lambda>u. ascii ''y'') db0)) =
       fst (createPost_controller new_id 300
        (request0 [] [(''title'', ascii ''New''), (''content'', ascii ''text'')] alice) db0)
   \<and> fst (login deps0 (ascii ''alice@example.com'') (ascii ''x'')
        (rehashed (\<lambda>u. ascii ''$h$x'') db0)) =
       fst (login deps0 (ascii ''alice@example.com'') (ascii ''secret'') db0)"
proof -
  let ?r = "[(''id'', new_id), (''name'', ascii ''Carol''),
          (''email'', ascii ''carol@example.com''), (''token'', ascii ''jwt.'' @ new_id)]"
  let ?s = "[(''id'', alice_id), (''name'', ascii ''Alice''),
          (''email'', ascii ''alice@example.com''), (''token'', ascii ''jwt.'' @ alice_id)]"
  let ?doc = "populate [''name'', ''email''] db0 post1"
  let ?a = "[(''_id'', alice_id), (''name'', ascii ''Alice''),
            (''email'', ascii ''alice@example.com'')]"
  let ?req = "request0 [] [(''title'', ascii ''New''), (''content'', ascii ''text'')] alice"
  have reg: "fst (register deps0 new_id (ascii ''Carol'') (ascii ''carol@example.com'')
               (ascii ''hunter22'') db0) = Inr ?r"
    by (simp add: register_fst db0_def alice_def bob_def deps0_def)
  have log: "fst (login deps0 (ascii ''alice@example.com'') (ascii ''secret'') db0) = Inr ?s"
    by (simp add: login_fst userResponse_def db0_def alice_def deps0_def)
  have bad: "fst (login deps0 (ascii ''alice@example.com'') (ascii ''guess'') db0) =
      Inl (Error ''Invalid credentials'')"
    by (simp add: login_fst userResponse_def db0_def alice_def deps0_def)
  have log': "fst (login deps0 (ascii ''alice@example.com'') (ascii ''x'')
               (rehashed (\<lambda>u. ascii ''$h$x'') db0)) = Inr ?s"
    by (simp add: login_fst userResponse_def db0_def alice_def deps0_def)
  have lst: "fst (getAllPosts db0) =
      [populate [''name'', ''email''] db0 post2, populate [''name'', ''email''] db0 post1]"
    by (simp add: getAllPosts_fst sort_createdAt_desc_def db0_def post1_def post2_def)
  have aut: "doc_author (populate [''name'', ''email''] db0 post1) = Some ?a"
       "doc_author (populate [''name'', ''email''] db0 post2) =
          Some [(''_id'', bob_id), (''name'', ascii ''Bob''),
                (''email'', ascii ''bob@example.com'')]"
    by (simp_all add: populate_def select_name_email find_user_db0 post1_def post2_def)
       (simp_all add: alice_def bob_def)
  have get: "fst (getPostById deps0 post1_id db0) = Inr ?doc"
    by (simp add: getPostById_fst cast_ids find_post_db0)
  note t1 = no_password_outward [where d = deps0 and st = db0 and i = new_id
         and name = "ascii ''Carol''" and email = "ascii ''carol@example.com''"
         and password = "ascii ''hunter22''" and h = "\<lambda>u. ascii ''y''" and x = "ascii ''x''"
         and req = ?req and now = 300]
  note t2 = no_password_outward [where d = deps0 and st = db0
         and email = "ascii ''alice@example.com''"
         and password = "ascii ''secret''" and password' = "ascii ''x''" and s = ?s and s' = ?s
         and h = "\<lambda>u. ascii ''$h$x''" and postId = post1_id and doc = ?doc and a = ?a]
  from t1 have cre: "fst (createPost_controller new_id 300 (with_hash (ascii ''x'') ?req)
        (rehashed (\<lambda>u. ascii ''y'') db0)) = fst (createPost_controller new_id 300 ?req db0)"
    by blast
  from t2 get aut(1) have keys: "map fst ?a = [''_id'', ''name'', ''email'']"
    by blast
  show ?thesis
    using reg log bad lst aut get cre log' by (intro conjI) simp_all
qed

section \<open>Writing a post\<close>

lemma find_update_first:
  "find (\<lambda>q. post_id q = i) ps = Some p \<Longrightarrow> post_id (f p) = i \<Longrightarrow>
     find (\<lambda>q. post_id q = i) (update_first i f ps) = Some (f p)"
  by (induction ps) (auto split: if_splits)

lemma map_update_first:
  "(\<And>q. g (f q) = g q) \<Longrightarrow> map g (update_first i f ps) = map g ps"
  by (induction ps) auto

lemma updatePost_Inr:
  assumes "updatePost d now postId t c st = (Inr doc, st')"
  shows "\<exists>i p. castObjectId d postId = Some i
           \<and> find (\<lambda>q. post_id q = i) (posts st) = Some p
           \<and> trim t \<noteq> [] \<and> c \<noteq> []
           \<and> st' = logged (FindByIdAndUpdate postId)
                  (st\<lparr>posts := update_first i
                     (\<lambda>q. q\<lparr>title := trim t, content := c, updatedAt := now\<rparr>) (posts st)\<rparr>)
           \<and> doc = populate [''name'', ''email''] st
                  (p\<lparr>title := trim t, content := c, updatedAt := now\<rparr>)"
  using assms
  by (auto simp: updatePost_def Post_findByIdAndUpdate_def Let_def postSchema_Inr
      split: if_splits sum.splits prod.splits option.splits)

text \<open>
  Claim C5. When \<^verbatim>\<open>updatePost(id, { title, content })\<close> succeeds, the post stored
  under the id is the post that was there with the (trimmed) title, the content and
  \<open>updatedAt\<close> replaced, and this is the document returned; the ids, the authors and
  the creation times of all posts, and the users, are as before. The handler reads
  only the id of the path and the title and content of the body: two requests that
  agree on these get the same answer, whatever else the body holds (an
  \<^verbatim>\<open>authorId\<close> field is not read).
\<close>

theorem updatePost_frame:
  "(updatePost d now postId t c st = (Inr doc, st') \<longrightarrow>
      (\<exists>i p. castObjectId d postId = Some i
          \<and> find (\<lambda>q. post_id q = i) (posts st) = Some p
          \<and> find (\<lambda>q. post_id q = i) (posts st') =
              Some (p\<lparr>title := trim t, content := c, updatedAt := now\<rparr>)
          \<and> doc = populate [''name'', ''email''] st
                    (p\<lparr>title := trim t, content := c, updatedAt := now\<rparr>)
          \<and> posts st' = update_first i
                (\<lambda>q. q\<lparr>title := trim t, content := c, updatedAt := now\<rparr>) (posts st))
      \<and> map post_id (posts st') = map post_id (posts st)
      \<and> map authorId (posts st') = map authorId (posts st)
      \<and> map createdAt (posts st') = map createdAt (posts st)
      \<and> users st' = users st)
   \<and> (params_id req' = params_id req
        \<and> map_of (body req') ''title'' = map_of (body req) ''title''
        \<and> map_of (body req') ''content'' = map_of (body req) ''content'' \<longrightarrow>
       updatePost_controller d now req' st = updatePost_controller d now req st)"
proof -
  have a: "(\<exists>i p. castObjectId d postId = Some i
          \<and> find (\<lambda>q. post_id q = i) (posts st) = Some p
          \<and> find (\<lambda>q. post_id q = i) (posts st') =
              Some (p\<lparr>title := trim t, content := c, updatedAt := now\<rparr>)
          \<and> doc = populate [''name'', ''email''] st
                    (p\<lparr>title := trim t, content := c, updatedAt := now\<rparr>)
          \<and> posts st' = update_first i
                (\<lambda>q. q\<lparr>title := trim t, content := c, updatedAt := now\<rparr>) (posts st))
      \<and> map post_id (posts st') = map post_id (posts st)
      \<and> map authorId (posts st') = map authorId (posts st)
      \<and> map createdAt (posts st') = map createdAt (posts st)
      \<and> users st' = users st"
    if h: "updatePost d now postId t c st = (Inr doc, st')"
  proof -
    let ?f = "\<lambda>q. q\<lparr>title := trim t, content := c, updatedAt := now\<rparr>"
    from updatePost_Inr [OF h] obtain i p where
      i: "castObjectId d postId = Some i"
      and p: "find (\<lambda>q. post_id q = i) (posts st) = Some p"
      and st': "st' = logged (FindByIdAndUpdate postId)
                  (st\<lparr>posts := update_first i ?f (posts st)\<rparr>)"
      and doc: "doc = populate [''name'', ''email''] st (?f p)"
      by blast
    from find_post_id [OF p] have "post_id (?f p) = i" by simp
    from find_update_first [where f = ?f, OF p this]
    have f': "find (\<lambda>q. post_id q = i) (posts st') = Some (?f p)"
      by (simp add: st')
    have ps: "posts st' = update_first i ?f (posts st)"
      by (simp add: st')
    have m: "map post_id (posts st') = map post_id (posts st)"
      "map authorId (posts st') = map authorId (posts st)"
      "map createdAt (posts st') = map createdAt (posts st)"
      by (simp_all add: ps map_update_first)
    have u: "users st' = users st" by (simp add: st')
    from i p f' doc ps have "\<exists>i p. castObjectId d postId = Some i
          \<and> find (\<lambda>q. post_id q = i) (posts st) = Some p
          \<and> find (\<lambda>q. post_id q = i) (posts st') = Some (?f p)
          \<and> doc = populate [''name'', ''email''] st (?f p)
          \<and> posts st' = update_first i ?f (posts st)"
      by blast
    with m u show ?thesis by blast
  qed
  have b: "params_id req' = params_id req
        \<and> map_of (body req') ''title'' = map_of (body req) ''title''
        \<and> map_of (body req') ''content'' = map_of (body req) ''content'' \<Longrightarrow>
       updatePost_controller d now req' st = updatePost_controller d now req st"
    by (clarsimp simp: updatePost_controller_def Let_def cong: if_cong)
  from a b show ?thesis by blast
qed

theorem updatePost_frame_witness:
  "updatePost deps0 300 post1_id (ascii ''  New title  '') (ascii ''<p>New</p>'') db0 =
     (Inr \<lparr>doc_id = post1_id, doc_title = ascii ''New title'',
           doc_content = ascii ''<p>New</p>'',
           doc_author = Some [(''_id'', alice_id), (''name'', ascii ''Alice''),
                              (''email'', ascii ''alice@example.com'')],
           doc_createdAt = 100, doc_updatedAt = 300\<rparr>,
      \<lparr>users = [alice, bob],
       posts = [post1\<lparr>title := ascii ''New title'', content := ascii ''<p>New</p>'',
                      updatedAt := 300\<rparr>, post2],
       calls = [FindByIdAndUpdate post1_id]\<rparr>)
   \<and> map post_id (posts
        \<lparr>users = [alice, bob],
         posts = [post1\<lparr>title := ascii ''New title'', content := ascii ''<p>New</p>'',
                        updatedAt := 300\<rparr>, post2],
         calls = [FindByIdAndUpdate post1_id]\<rparr>) = map post_id (posts db0)
   \<and> map authorId (posts
        \<lparr>users = [alice, bob],
         posts = [post1\<lparr>title := ascii ''New title'', content := ascii ''<p>New</p>'',
                        updatedAt := 300\<rparr>, post2],
         calls = [FindByIdAndUpdate post1_id]\<rparr>) = map authorId (posts db0)
   \<and> updatePost_controller deps0 300
        (request0 post1_id
           [(''authorId'', bob_id), (''title'', ascii ''New''), (''content'', ascii ''text'')]
           alice) db0 =
       updatePost_controller deps0 300
        (request0 post1_id [(''title'', ascii ''New''), (''content'', ascii ''text'')] alice) db0"
proof -
  let ?doc = "\<lparr>doc_id = post1_id, doc_title = ascii ''New title'',
           doc_content = ascii ''<p>New</p>'',
           doc_author = Some [(''_id'', alice_id), (''name'', ascii ''Alice''),
                              (''email'', ascii ''alice@example.com'')],
           doc_createdAt = 100, doc_updatedAt = 300\<rparr>"
  let ?st = "\<lparr>users = [alice, bob],
       posts = [post1\<lparr>title := ascii ''New title'', content := ascii ''<p>New</p>'',
                      updatedAt := 300\<rparr>, post2],
       calls = [FindByIdAndUpdate post1_id]\<rparr>"
  let ?req' = "request0 post1_id
           [(''authorId'', bob_id), (''title'', ascii ''New''), (''content'', ascii ''text'')]
           alice"
  let ?req = "request0 post1_id [(''title'', ascii ''New''), (''content'', ascii ''text'')] alice"
  have t: "trim (ascii ''  New title  '') \<noteq> []" "ascii ''<p>New</p>'' \<noteq> []"
    by (simp_all add: trim_examples)
  have u: "updatePost deps0 300 post1_id (ascii ''  New title  '') (ascii ''<p>New</p>'') db0 =
     (Inr ?doc, ?st)"
    unfolding updatePost_ok [OF cast_ids(1) find_post_db0(1) t]
    by (simp add: trim_examples populate_def find_user_db0 [simplified] select_name_email)
       (simp add: db0_def post1_def alice_def logged_def)
  have b: "params_id ?req' = params_id ?req
        \<and> map_of (body ?req') ''title'' = map_of (body ?req) ''title''
        \<and> map_of (body ?req') ''content'' = map_of (body ?req) ''content''"
    by (simp add: request0_def)
  from updatePost_frame [where d = deps0 and now = 300 and postId = post1_id
         and t = "ascii ''  New title  ''" and c = "ascii ''<p>New</p>''" and st = db0
         and doc = ?doc and st' = ?st and req' = ?req' and req = ?req] u b
  show ?thesis by blast
qed

text \<open>
  The form of the client does remove the tags of the content before it measures it: a
  content that is empty after that does not pass the form.
\<close>

lemma postSchema_form_blank:
  "trim (stripTags c) = [] \<Longrightarrow> \<not> postSchema_form t c"
  by (simp add: postSchema_form_def)

text \<open>
  Claim C7, as the code has it. For a create request whose title and content, where
  the body has them, are strings, the handler answers 400 exactly when the title is
  absent or empty after trimming white space, or the content is absent or the empty
  string; otherwise it answers 201. The server removes no tags and does not trim the
  content.
\<close>

theorem createPost_rejected_iff:
  "status (fst (createPost_controller i now req st)) =
     (if (case map_of (body req) ''title'' of None \<Rightarrow> True | Some t \<Rightarrow> trim t = [])
         \<or> (case map_of (body req) ''content'' of None \<Rightarrow> True | Some c \<Rightarrow> c = [])
      then 400 else 201)"
proof (cases "falsy (map_of (body req) ''title'') \<or> falsy (map_of (body req) ''content'')")
  case True
  then have "status (fst (createPost_controller i now req st)) = 400"
    by (simp add: createPost_controller_def failure_def)
  moreover from True have
    "(case map_of (body req) ''title'' of None \<Rightarrow> True | Some t \<Rightarrow> trim t = [])
      \<or> (case map_of (body req) ''content'' of None \<Rightarrow> True | Some c \<Rightarrow> c = [])"
    by (auto simp: falsy_def trim_def split: option.splits)
  ultimately show ?thesis by simp
next
  case False
  then obtain t c where tc: "map_of (body req) ''title'' = Some t" "t \<noteq> []"
    "map_of (body req) ''content'' = Some c" "c \<noteq> []"
    by (auto simp: falsy_def split: option.splits)
  show ?thesis
  proof (cases "trim t = []")
    case True
    then have "postSchema t c = Inl {''Please provide a title''}"
      by (simp add: postSchema_def tc)
    then show ?thesis
      using True
      by (simp add: createPost_controller_def createPost_def Post_create_def tc falsy_def
          failure_def)
  next
    case False
    then have "postSchema t c = Inr (trim t, c)"
      by (simp add: postSchema_Inr tc)
    then show ?thesis
      using False
      by (simp add: createPost_controller_def createPost_def Post_create_def tc falsy_def
          Let_def)
  qed
qed

theorem createPost_rejected_iff_witness:
  "status (fst (createPost_controller new_id 300
        (request0 [] [(''title'', ascii ''   ''), (''content'', ascii ''text'')] alice) db0)) = 400
   \<and> status (fst (createPost_controller new_id 300
        (request0 [] [(''title'', [160, 8195, 65279]), (''content'', ascii ''text'')] alice)
        db0)) = 400
   \<and> status (fst (createPost_controller new_id 300
        (request0 [] [(''title'', ascii ''New'')] alice) db0)) = 400
   \<and> status (fst (createPost_controller new_id 300
        (request0 [] [(''title'', ascii ''New''), (''content'', ascii ''text'')] alice) db0)) = 201"
  using createPost_rejected_iff [of new_id 300
          "request0 [] [(''title'', ascii ''   ''), (''content'', ascii ''text'')] alice" db0]
        createPost_rejected_iff [of new_id 300
          "request0 [] [(''title'', [160, 8195, 65279]), (''content'', ascii ''text'')] alice" db0]
        createPost_rejected_iff [of new_id 300
          "request0 [] [(''title'', ascii ''New'')] alice" db0]
        createPost_rejected_iff [of new_id 300
          "request0 [] [(''title'', ascii ''New''), (''content'', ascii ''text'')] alice" db0]
  by (simp add: request0_def trim_examples)

text \<open>
  Claim C7, as it is stated, fails: a title made only of tags and a content made only
  of white space are both empty after trimming and removing the tags, and the create
  handler answers 201.
\<close>

theorem createPost_blank_accepted:
  "trim (stripTags (ascii ''<b></b>'')) = [] \<and> trim (stripTags (ascii ''   '')) = []
   \<and> status (fst (createPost_controller new_id 300
        (request0 [] [(''title'', ascii ''<b></b>''), (''content'', ascii ''   '')] alice)
        db0)) = 201"
proof -
  have a: "trim (stripTags (ascii ''<b></b>'')) = []" "trim (stripTags (ascii ''   '')) = []"
    by (simp_all add: trim_def isWhitespace_def ascii_def)
  have "postSchema (ascii ''<b></b>'') (ascii ''   '') = Inr (ascii ''<b></b>'', ascii ''   '')"
    by (simp add: postSchema_Inr trim_examples)
  then have "status (fst (createPost_controller new_id 300
        (request0 [] [(''title'', ascii ''<b></b>''), (''content'', ascii ''   '')] alice)
        db0)) = 201"
    by (simp add: createPost_controller_def createPost_def Post_create_def request0_def
        falsy_def Let_def)
  with a show ?thesis by simp
qed

lemma updatePost_controller_cases:
  "updatePost_controller d now req st =
     (if falsy (map_of (body req) ''title'') \<or> falsy (map_of (body req) ''content'')
      then (failure 400 (Text ''Please provide title and content''), st)
      else case updatePost d now (params_id req) (the (map_of (body req) ''title''))
                  (the (map_of (body req) ''content'')) st of
             (Inr p, st') \<Rightarrow>
               (\<lparr>status = 200, success = True,
                 message = Some (Text ''Post updated successfully''), data = PostData p\<rparr>, st')
           | (Inl e, st') \<Rightarrow> (failure 404 (message_of e), st'))"
  by (simp add: updatePost_controller_def Let_def)

lemma route_put_blank_title:
  "route_put deps0 300
     (request0 post1_id [(''title'', ascii ''   ''), (''content'', ascii ''text'')] alice)
     db0 =
   (failure 404 (Composed (ValidationError {''Please provide a title''})),
    logged (FindByIdAndUpdate post1_id) (logged (FindById post1_id) db0))"
  by (simp add: route_put_def authorize_def Post_findById_def cast_ids request0_def
      find_post_db0 updatePost_controller_cases falsy_def updatePost_def
      Post_findByIdAndUpdate_def postSchema_def trim_examples)
     (simp add: post1_def alice_def)

text \<open>
  Claim C10. In the update handler, once title and content have passed the check
  \<^verbatim>\<open>!title || !content\<close>, the answer is never 400, and every error that the post
  service raises is answered as 404 with the error's message: a failure of the
  schema's validation as well as a missing post. And there is a request by the owner
  of a stored post, with a title that is not empty and all white space, that the PUT
  route answers with 404.
\<close>

theorem updatePost_failures_are_404:
  "(\<not> falsy (map_of (body req) ''title'') \<and> \<not> falsy (map_of (body req) ''content'') \<longrightarrow>
      status (fst (updatePost_controller d now req st)) \<noteq> 400
      \<and> (\<forall>e. fst (updatePost d now (params_id req) (the (map_of (body req) ''title''))
                  (the (map_of (body req) ''content'')) st) = Inl e \<longrightarrow>
             fst (updatePost_controller d now req st) = failure 404 (message_of e)))
   \<and> (\<exists>d now req st p t.
         fst (Post_findById d (params_id req) st) = Inr (Some p)
         \<and> authorId p = user_id (req_user req)
         \<and> map_of (body req) ''title'' = Some t \<and> t \<noteq> [] \<and> list_all isWhitespace t
         \<and> \<not> falsy (map_of (body req) ''content'')
         \<and> status (fst (route_put d now req st)) = 404)"
proof -
  have a: "\<not> falsy (map_of (body req) ''title'') \<and> \<not> falsy (map_of (body req) ''content'') \<longrightarrow>
      status (fst (updatePost_controller d now req st)) \<noteq> 400
      \<and> (\<forall>e. fst (updatePost d now (params_id req) (the (map_of (body req) ''title''))
                  (the (map_of (body req) ''content'')) st) = Inl e \<longrightarrow>
             fst (updatePost_controller d now req st) = failure 404 (message_of e))"
    by (auto simp: updatePost_controller_cases failure_def split: prod.splits sum.splits)
  let ?req = "request0 post1_id [(''title'', ascii ''   ''), (''content'', ascii ''text'')] alice"
  have "fst (Post_findById deps0 (params_id ?req) db0) = Inr (Some post1)"
    by (simp add: Post_findById_def cast_ids request0_def find_post_db0)
  moreover have "authorId post1 = user_id (req_user ?req)"
    by (simp add: request0_def post1_def alice_def)
  moreover have "map_of (body ?req) ''title'' = Some (ascii ''   '') \<and> ascii ''   '' \<noteq> []
      \<and> list_all isWhitespace (ascii ''   '') \<and> \<not> falsy (map_of (body ?req) ''content'')"
    by (simp add: request0_def falsy_def) (simp add: ascii_def isWhitespace_def)
  moreover have "status (fst (route_put deps0 300 ?req db0)) = 404"
    by (simp add: route_put_blank_title failure_def)
  ultimately have b: "\<exists>d now req st p t.
         fst (Post_findById d (params_id req) st) = Inr (Some p)
         \<and> authorId p = user_id (req_user req)
         \<and> map_of (body req) ''title'' = Some t \<and> t \<noteq> [] \<and> list_all isWhitespace t
         \<and> \<not> falsy (map_of (body req) ''content'')
         \<and> status (fst (route_put d now req st)) = 404"
    by blast
  from a b show ?thesis by blast
qed

theorem updatePost_failures_are_404_witness:
  "\<not> falsy (map_of (body (request0 post1_id
         [(''title'', ascii ''   ''), (''content'', ascii ''text'')] alice)) ''title'')
   \<and> \<not> falsy (map_of (body (request0 post1_id
         [(''title'', ascii ''   ''), (''content'', ascii ''text'')] alice)) ''content'')
   \<and> fst (updatePost deps0 300 post1_id (ascii ''   '') (ascii ''text'') db0) =
       Inl (ValidationError {''Please provide a title''})
   \<and> fst (updatePost_controller deps0 300 (request0 post1_id
         [(''title'', ascii ''   ''), (''content'', ascii ''text'')] alice) db0) =
       failure 404 (Composed (ValidationError {''Please provide a title''}))"
proof -
  let ?req = "request0 post1_id [(''title'', ascii ''   ''), (''content'', ascii ''text'')] alice"
  have f: "\<not> falsy (map_of (body ?req) ''title'')" "\<not> falsy (map_of (body ?req) ''content'')"
    by (simp_all add: request0_def falsy_def)
  have u: "fst (updatePost deps0 300 post1_id (ascii ''   '') (ascii ''text'') db0) =
       Inl (ValidationError {''Please provide a title''})"
    by (simp add: updatePost_def Post_findByIdAndUpdate_def cast_ids postSchema_def
        trim_examples)
  have u': "fst (updatePost deps0 300 (params_id ?req) (the (map_of (body ?req) ''title''))
                  (the (map_of (body ?req) ''content'')) db0) =
       Inl (ValidationError {''Please provide a title''})"
    using u by (simp add: request0_def)
  from updatePost_failures_are_404 [where req = ?req and d = deps0 and now = 300 and st = db0]
       f u'
  have "fst (updatePost_controller deps0 300 ?req db0) =
          failure 404 (message_of (ValidationError {''Please provide a title''}))"
    by blast
  with f u show ?thesis by simp
qed

section \<open>Calls on the store\<close>

lemma updatePost_calls:
  "calls (snd (updatePost d now i t c st)) = calls st @ [FindByIdAndUpdate i]"
  by (simp add: updatePost_def Post_findByIdAndUpdate_def Let_def
      split: sum.splits prod.splits option.splits)

lemma deletePost_calls:
  "calls (snd (deletePost d i st)) = calls st @ [FindByIdAndDelete i]"
  by (simp add: deletePost_def Post_findByIdAndDelete_def split: option.splits)

lemma updatePost_controller_calls:
  "calls (snd (updatePost_controller d now req st)) =
     calls st @
       (if falsy (map_of (body req) ''title'') \<or> falsy (map_of (body req) ''content'')
        then [] else [FindByIdAndUpdate (params_id req)])"
  using updatePost_calls [of d now "params_id req" "the (map_of (body req) ''title'')"
      "the (map_of (body req) ''content'')" st]
  by (auto simp: updatePost_controller_cases split: prod.splits sum.splits)

lemma deletePost_controller_calls:
  "calls (snd (deletePost_controller d req st)) = calls st @ [FindByIdAndDelete (params_id req)]"
  using deletePost_calls [of d "params_id req" st]
  by (auto simp: deletePost_controller_def split: prod.splits sum.splits)

text \<open>
  Claim C8, as the code has it. When the guard passes, it has set \<^verbatim>\<open>req.post\<close> to
  the post it loaded and the handler runs on that request. The update and delete
  handlers do not read \<^verbatim>\<open>req.post\<close>: their answer is the same whatever it holds.
  An authorized delete asks the store again, by the id of the path: it makes the two
  calls \<^verbatim>\<open>findById\<close> and \<^verbatim>\<open>findByIdAndDelete\<close>. An authorized update whose
  title and content pass the check \<^verbatim>\<open>!title || !content\<close> makes the two calls
  \<^verbatim>\<open>findById\<close> and \<^verbatim>\<open>findByIdAndUpdate\<close>; one whose title or content is absent
  or empty is answered 400 by the handler after the one call of the guard.
\<close>

theorem guard_sets_post_handler_asks_again:
  assumes "fst (Post_findById d (params_id req) st) = Inr (Some p)"
    and "authorId p = user_id (req_user req)"
  shows "fst (authorize d req st) = Next (req\<lparr>req_post := Some p\<rparr>)
     \<and> updatePost_controller d now (req\<lparr>req_post := x\<rparr>) st1 = updatePost_controller d now req st1
     \<and> deletePost_controller d (req\<lparr>req_post := x\<rparr>) st1 = deletePost_controller d req st1
     \<and> calls (snd (route_put d now req st)) =
          calls st @
            (if falsy (map_of (body req) ''title'') \<or> falsy (map_of (body req) ''content'')
             then [FindById (params_id req)]
             else [FindById (params_id req), FindByIdAndUpdate (params_id req)])
     \<and> fst (route_put d now req st) =
          (if falsy (map_of (body req) ''title'') \<or> falsy (map_of (body req) ''content'')
           then failure 400 (Text ''Please provide title and content'')
           else fst (updatePost_controller d now req (logged (FindById (params_id req)) st)))
     \<and> calls (snd (route_delete d req st)) =
          calls st @ [FindById (params_id req), FindByIdAndDelete (params_id req)]"
proof -
  from findById_answer [OF assms(1)]
  have a: "authorize d req st =
             (Next (req\<lparr>req_post := Some p\<rparr>), logged (FindById (params_id req)) st)"
    using assms(2) by (auto simp: authorize_def)
  have b: "updatePost_controller d now (req\<lparr>req_post := x\<rparr>) st1 =
             updatePost_controller d now req st1" for x st1
    by (simp add: updatePost_controller_def Let_def cong: if_cong)
  have c: "deletePost_controller d (req\<lparr>req_post := x\<rparr>) st1 = deletePost_controller d req st1"
    for x st1
    by (simp add: deletePost_controller_def)
  have rp: "route_put d now req st =
      updatePost_controller d now req (logged (FindById (params_id req)) st)"
    by (simp add: route_put_def a b)
  have d: "calls (snd (route_put d now req st)) =
          calls st @
            (if falsy (map_of (body req) ''title'') \<or> falsy (map_of (body req) ''content'')
             then [FindById (params_id req)]
             else [FindById (params_id req), FindByIdAndUpdate (params_id req)])"
    by (simp add: rp updatePost_controller_calls)
  have e: "fst (route_put d now req st) =
          (if falsy (map_of (body req) ''title'') \<or> falsy (map_of (body req) ''content'')
           then failure 400 (Text ''Please provide title and content'')
           else fst (updatePost_controller d now req (logged (FindById (params_id req)) st)))"
    by (simp add: rp) (simp add: updatePost_controller_cases)
  have f: "calls (snd (route_delete d req st)) =
          calls st @ [FindById (params_id req), FindByIdAndDelete (params_id req)]"
    using deletePost_controller_calls [of d "req\<lparr>req_post := Some p\<rparr>"
        "logged (FindById (params_id req)) st"]
    by (simp add: route_delete_def a)
  from a b c d e f show ?thesis by simp
qed

theorem guard_sets_post_handler_asks_again_witness:
  "fst (Post_findById deps0 post1_id db0) = Inr (Some post1)
   \<and> authorId post1 = user_id alice
   \<and> fst (authorize deps0 (request0 post1_id [] alice) db0) =
       Next \<lparr>params_id = post1_id, body = [], req_user = alice, req_post = Some post1\<rparr>
   \<and> calls (snd (route_delete deps0 (request0 post1_id [] alice) db0)) =
       [FindById post1_id, FindByIdAndDelete post1_id]
   \<and> calls (snd (route_put deps0 300
        (request0 post1_id [(''title'', ascii ''New''), (''content'', [])] alice) db0)) =
       [FindById post1_id]
   \<and> fst (route_put deps0 300
        (request0 post1_id [(''title'', ascii ''New''), (''content'', [])] alice) db0) =
       failure 400 (Text ''Please provide title and content'')
   \<and> calls (snd (route_put deps0 300
        (request0 post1_id [(''title'', ascii ''New''), (''content'', ascii ''text'')] alice)
        db0)) =
       [FindById post1_id, FindByIdAndUpdate post1_id]"
proof -
  have h: "fst (Post_findById deps0 (params_id (request0 post1_id b alice)) db0) =
      Inr (Some post1)" for b
    by (simp add: Post_findById_def cast_ids request0_def find_post_db0)
  have o: "authorId post1 = user_id (req_user (request0 post1_id b alice))" for b
    by (simp add: request0_def post1_def alice_def)
  have c: "calls db0 = []" by (simp add: db0_def)
  from guard_sets_post_handler_asks_again [OF h [of "[]"] o [of "[]"], where now = 300]
       guard_sets_post_handler_asks_again
         [OF h [of "[(''title'', ascii ''New''), (''content'', [])]"]
             o [of "[(''title'', ascii ''New''), (''content'', [])]"], where now = 300]
       guard_sets_post_handler_asks_again
         [OF h [of "[(''title'', ascii ''New''), (''content'', ascii ''text'')]"]
             o [of "[(''title'', ascii ''New''), (''content'', ascii ''text'')]"],
          where now = 300]
       h [of "[]"] o [of "[]"] c
  show ?thesis by (simp add: request0_def falsy_def)
qed

text \<open>
  Claim C8, as it is stated, fails: an authorized update by the owner, answered 200,
  has asked the store for the post twice.
\<close>

theorem put_fetches_twice:
  "status (fst (route_put deps0 300
       (request0 post1_id [(''title'', ascii ''New''), (''content'', ascii ''text'')] alice)
       db0)) = 200
   \<and> calls (snd (route_put deps0 300
       (request0 post1_id [(''title'', ascii ''New''), (''content'', ascii ''text'')] alice)
       db0)) =
     [FindById post1_id, FindByIdAndUpdate post1_id]"
proof -
  have "postSchema (ascii ''New'') (ascii ''text'') = Inr (ascii ''New'', ascii ''text'')"
    by (simp add: postSchema_Inr trim_examples)
  then show ?thesis
    by (simp add: route_put_def authorize_def Post_findById_def cast_ids request0_def
        find_post_db0 updatePost_controller_cases falsy_def updatePost_def
        Post_findByIdAndUpdate_def)
       (simp add: post1_def alice_def db0_def)
qed

section \<open>The list of posts\<close>

lemma sorted_desc:
  "sorted_wrt (\<lambda>a b. createdAt b \<le> createdAt a) (sort_createdAt_desc ps)"
proof -
  have "sorted (map (\<lambda>p. - int (createdAt p)) (sort_createdAt_desc ps))"
    unfolding sort_createdAt_desc_def by (rule sorted_sort_key)
  then show ?thesis by (simp add: sorted_map)
qed

lemma mset_sort_desc: "mset (sort_createdAt_desc ps) = mset ps"
  by (simp add: sort_createdAt_desc_def)

lemma foldr_insort_newest:
  "(\<forall>x \<in> set xs. f p < f x) \<Longrightarrow>
     foldr (insort_key f) xs (p # ys) = p # foldr (insort_key f) xs ys"
  for f :: "'a \<Rightarrow> int"
  by (induction xs) auto

lemma sort_desc_newest:
  assumes "\<forall>q \<in> set ps. createdAt q < createdAt p"
  shows "sort_createdAt_desc (ps @ [p]) = p # sort_createdAt_desc ps"
proof -
  have "\<forall>q \<in> set ps. - int (createdAt p) < - int (createdAt q)"
    using assms by simp
  from foldr_insort_newest [OF this, of "[]"] show ?thesis
    by (simp add: sort_createdAt_desc_def sort_key_def)
qed

lemma createPost_Inr:
  assumes "createPost i now t c a st = (Inr doc, st')"
  shows "\<exists>p. createdAt p = now \<and> posts st' = posts st @ [p] \<and> users st' = users st
           \<and> doc = populate [''name'', ''email''] st p"
  using assms
  by (auto simp: createPost_def Post_create_def Let_def split: sum.splits prod.splits)

lemma populate_users_cong:
  "users st' = users st \<Longrightarrow> populate fs st' p = populate fs st p"
  by (simp add: populate_def)

text \<open>
  Claim C9, as the code has it. The list holds all posts, each once, ordered by
  creation time with the newest first: of any two posts in it, the one that comes
  first was not created before the other. And a post created at a time later than
  that of every stored post is the first of the next list.
\<close>

theorem getAllPosts_newest_first:
  "sorted_wrt (\<lambda>a b. doc_createdAt b \<le> doc_createdAt a) (fst (getAllPosts st))
   \<and> mset (fst (getAllPosts st)) =
       image_mset (populate [''name'', ''email''] st) (mset (posts st))
   \<and> (createPost i now t c a st = (Inr doc, st') \<and> (\<forall>p \<in> set (posts st). createdAt p < now)
        \<longrightarrow> (\<exists>rest. fst (getAllPosts st') = doc # rest))"
proof -
  have s: "sorted_wrt (\<lambda>a b. doc_createdAt b \<le> doc_createdAt a) (fst (getAllPosts st))"
    using sorted_desc [of "posts st"]
    by (simp add: getAllPosts_fst sorted_wrt_map populate_def)
  have m: "mset (fst (getAllPosts st)) =
       image_mset (populate [''name'', ''email''] st) (mset (posts st))"
    unfolding getAllPosts_fst mset_map mset_sort_desc ..
  have n: "\<exists>rest. fst (getAllPosts st') = doc # rest"
    if h: "createPost i now t c a st = (Inr doc, st')"
      and new: "\<forall>p \<in> set (posts st). createdAt p < now"
  proof -
    from createPost_Inr [OF h] obtain p where
      p: "createdAt p = now" "posts st' = posts st @ [p]" "users st' = users st"
         "doc = populate [''name'', ''email''] st p"
      by blast
    from new p(1) have "\<forall>q \<in> set (posts st). createdAt q < createdAt p" by simp
    from sort_desc_newest [OF this]
    have "fst (getAllPosts st') =
            populate [''name'', ''email''] st' p #
            map (populate [''name'', ''email''] st') (sort_createdAt_desc (posts st))"
      by (simp add: getAllPosts_fst p(2))
    with p(4) show ?thesis by (simp add: populate_users_cong [OF p(3)])
  qed
  have n': "createPost i now t c a st = (Inr doc, st') \<and>
              (\<forall>p \<in> set (posts st). createdAt p < now)
            \<longrightarrow> (\<exists>rest. fst (getAllPosts st') = doc # rest)"
  proof
    assume asm: "createPost i now t c a st = (Inr doc, st') \<and>
              (\<forall>p \<in> set (posts st). createdAt p < now)"
    from asm have h: "createPost i now t c a st = (Inr doc, st')" by (rule conjunct1)
    from asm have new: "\<forall>p \<in> set (posts st). createdAt p < now" by (rule conjunct2)
    from n [OF h new] show "\<exists>rest. fst (getAllPosts st') = doc # rest" .
  qed
  show ?thesis
    by (intro conjI) (rule s, rule m, rule n')
qed

theorem getAllPosts_newest_first_witness:
  "createPost new_id 300 (ascii ''Third'') (ascii ''text'') alice_id db0 =
     (Inr \<lparr>doc_id = new_id, doc_title = ascii ''Third'', doc_content = ascii ''text'',
           doc_author = Some [(''_id'', alice_id), (''name'', ascii ''Alice''),
                              (''email'', ascii ''alice@example.com'')],
           doc_createdAt = 300, doc_updatedAt = 300\<rparr>,
      \<lparr>users = [alice, bob],
       posts = [post1, post2,
                \<lparr>post_id = new_id, title = ascii ''Third'', content = ascii ''text'',
                 authorId = alice_id, createdAt = 300, updatedAt = 300\<rparr>],
       calls = [Create]\<rparr>)
   \<and> map createdAt (posts db0) = [100, 200]
   \<and> map doc_createdAt (fst (getAllPosts db0)) = [200, 100]
   \<and> map doc_createdAt (fst (getAllPosts
        \<lparr>users = [alice, bob],
         posts = [post1, post2,
                  \<lparr>post_id = new_id, title = ascii ''Third'', content = ascii ''text'',
                   authorId = alice_id, createdAt = 300, updatedAt = 300\<rparr>],
         calls = [Create]\<rparr>)) = [300, 200, 100]
   \<and> (\<exists>rest. fst (getAllPosts
        \<lparr>users = [alice, bob],
         posts = [post1, post2,
                  \<lparr>post_id = new_id, title = ascii ''Third'', content = ascii ''text'',
                   authorId = alice_id, createdAt = 300, updatedAt = 300\<rparr>],
         calls = [Create]\<rparr>) =
        \<lparr>doc_id = new_id, doc_title = ascii ''Third'', doc_content = ascii ''text'',
         doc_author = Some [(''_id'', alice_id), (''name'', ascii ''Alice''),
                            (''email'', ascii ''alice@example.com'')],
         doc_createdAt = 300, doc_updatedAt = 300\<rparr> # rest)"
proof -
  let ?doc = "\<lparr>doc_id = new_id, doc_title = ascii ''Third'', doc_content = ascii ''text'',
           doc_author = Some [(''_id'', alice_id), (''name'', ascii ''Alice''),
                              (''email'', ascii ''alice@example.com'')],
           doc_createdAt = 300, doc_updatedAt = 300\<rparr>"
  let ?p = "\<lparr>post_id = new_id, title = ascii ''Third'', content = ascii ''text'',
                 authorId = alice_id, createdAt = 300, updatedAt = 300\<rparr>"
  let ?st = "\<lparr>users = [alice, bob], posts = [post1, post2, ?p], calls = [Create]\<rparr>"
  have s: "postSchema (ascii ''Third'') (ascii ''text'') = Inr (ascii ''Third'', ascii ''text'')"
    by (simp add: postSchema_Inr trim_examples)
  have c: "createPost new_id 300 (ascii ''Third'') (ascii ''text'') alice_id db0 = (Inr ?doc, ?st)"
    by (simp add: createPost_def Post_create_def s populate_def find_user_db0 [simplified]
        select_name_email Let_def)
       (simp add: db0_def alice_def logged_def)
  have n: "\<forall>p \<in> set (posts db0). createdAt p < 300"
    by (simp add: db0_def post1_def post2_def)
  have m: "map createdAt (posts db0) = [100, 200]"
    by (simp add: db0_def post1_def post2_def)
  have l0: "map doc_createdAt (fst (getAllPosts db0)) = [200, 100]"
    by (simp add: getAllPosts_fst sort_createdAt_desc_def populate_def db0_def post1_def
        post2_def comp_def)
  have l1: "map doc_createdAt (fst (getAllPosts ?st)) = [300, 200, 100]"
    by (simp add: getAllPosts_fst sort_createdAt_desc_def populate_def post1_def
        post2_def comp_def)
  from getAllPosts_newest_first [where st = db0 and i = new_id
         and now = 300 and t = "ascii ''Third''" and c = "ascii ''text''"
         and a = alice_id and doc = ?doc and st' = ?st] c n
  have "\<exists>rest. fst (getAllPosts ?st) = ?doc # rest" by blast
  with c m l0 l1 show ?thesis by blast
qed

text \<open>
  Claim C9, as it is stated, fails: a post created in the millisecond in which the
  newest stored post was created is the second of the next list, not the first.
\<close>

theorem new_post_listed_second:
  "fst (createPost new_id 200 (ascii ''Third'') (ascii ''text'') alice_id db0) =
     Inr \<lparr>doc_id = new_id, doc_title = ascii ''Third'', doc_content = ascii ''text'',
          doc_author = Some [(''_id'', alice_id), (''name'', ascii ''Alice''),
                             (''email'', ascii ''alice@example.com'')],
          doc_createdAt = 200, doc_updatedAt = 200\<rparr>
   \<and> map doc_id (fst (getAllPosts
         (snd (createPost new_id 200 (ascii ''Third'') (ascii ''text'') alice_id db0)))) =
       [post2_id, new_id, post1_id]"
proof -
  have s: "postSchema (ascii ''Third'') (ascii ''text'') = Inr (ascii ''Third'', ascii ''text'')"
    by (simp add: postSchema_Inr trim_examples)
  have c: "createPost new_id 200 (ascii ''Third'') (ascii ''text'') alice_id db0 =
     (Inr \<lparr>doc_id = new_id, doc_title = ascii ''Third'', doc_content = ascii ''text'',
           doc_author = Some [(''_id'', alice_id), (''name'', ascii ''Alice''),
                              (''email'', ascii ''alice@example.com'')],
           doc_createdAt = 200, doc_updatedAt = 200\<rparr>,
      \<lparr>users = [alice, bob],
       posts = [post1, post2,
                \<lparr>post_id = new_id, title = ascii ''Third'', content = ascii ''text'',
                 authorId = alice_id, createdAt = 200, updatedAt = 200\<rparr>],
       calls = [Create]\<rparr>)"
    by (simp add: createPost_def Post_create_def s populate_def find_user_db0 [simplified]
        select_name_email Let_def)
       (simp add: db0_def alice_def logged_def)
  show ?thesis
    unfolding c
    by (simp add: getAllPosts_fst sort_createdAt_desc_def populate_def post1_def post2_def
        comp_def)
qed

end
